theory Spec2Isabelle
  imports Main
begin

section \<open>JavaScript strings\<close>

text \<open>
  Strings are lists of ASCII code units. The white space that \<^verbatim>\<open>String.prototype.trim\<close>
  removes is, inside ASCII, the six characters below; case mapping is the one of the
  ASCII letters. Characters beyond ASCII are outside this model.
\<close>

definition isWhiteSpace :: "char \<Rightarrow> bool" where
  "isWhiteSpace c = (c \<in> set [CHR 0x20, CHR 0x09, CHR 0x0A, CHR 0x0B, CHR 0x0C, CHR 0x0D])"

definition trim :: "string \<Rightarrow> string" where
  "trim s = rev (dropWhile isWhiteSpace (rev (dropWhile isWhiteSpace s)))"

definition upperLetters :: string where
  "upperLetters = ''ABCDEFGHIJKLMNOPQRSTUVWXYZ''"

definition lowerLetters :: string where
  "lowerLetters = ''abcdefghijklmnopqrstuvwxyz''"

definition lowerChar :: "char \<Rightarrow> char" where
  "lowerChar c = (case map_of (zip upperLetters lowerLetters) c of Some d \<Rightarrow> d | None \<Rightarrow> c)"

definition upperChar :: "char \<Rightarrow> char" where
  "upperChar c = (case map_of (zip lowerLetters upperLetters) c of Some d \<Rightarrow> d | None \<Rightarrow> c)"

definition toLowerCase :: "string \<Rightarrow> string" where
  "toLowerCase s = map lowerChar s"

definition toUpperCase :: "string \<Rightarrow> string" where
  "toUpperCase s = map upperChar s"

primrec startsWith :: "string \<Rightarrow> string \<Rightarrow> bool" where
  "startsWith s [] = True"
| "startsWith s (p # ps) = (case s of [] \<Rightarrow> False | c # cs \<Rightarrow> c = p \<and> startsWith cs ps)"

definition endsWith :: "string \<Rightarrow> string \<Rightarrow> bool" where
  "endsWith s p = startsWith (rev s) (rev p)"

primrec includes_str :: "string \<Rightarrow> string \<Rightarrow> bool" where
  "includes_str [] p = (p = [])"
| "includes_str (c # cs) p = (startsWith (c # cs) p \<or> includes_str cs p)"

section \<open>JavaScript values\<close>

text \<open>
  A parsed document (the result of \<^verbatim>\<open>JSON.parse\<close> or \<^verbatim>\<open>yaml.load\<close>) and every other
  dynamically typed value the code inspects. Numbers carry an integer: the code only ever
  tests them for truthiness. An object is the list of its own properties, each name once,
  in the order \<^verbatim>\<open>Object.entries\<close> gives them.
\<close>

datatype jsval =
    JUndefined
  | JNull
  | JBool bool
  | JNum int
  | JStr string
  | JArr "jsval list"
  | JObj "(string \<times> jsval) list"

text \<open>Truthiness, as \<^verbatim>\<open>!v\<close>, \<^verbatim>\<open>v && ...\<close> and \<^verbatim>\<open>v || ...\<close> read a value.\<close>

definition truthy :: "jsval \<Rightarrow> bool" where
  "truthy v = (case v of
      JUndefined \<Rightarrow> False
    | JNull \<Rightarrow> False
    | JBool b \<Rightarrow> b
    | JNum n \<Rightarrow> n \<noteq> 0
    | JStr s \<Rightarrow> s \<noteq> []
    | JArr xs \<Rightarrow> True
    | JObj kvs \<Rightarrow> True)"

text \<open>\<^verbatim>\<open>typeof v === 'object'\<close>: null and arrays are objects too.\<close>

definition typeofObject :: "jsval \<Rightarrow> bool" where
  "typeofObject v = (case v of JNull \<Rightarrow> True | JArr xs \<Rightarrow> True | JObj kvs \<Rightarrow> True | _ \<Rightarrow> False)"

text \<open>\<^verbatim>\<open>typeof v === 'string'\<close>.\<close>

definition typeofString :: "jsval \<Rightarrow> bool" where
  "typeofString v = (case v of JStr s \<Rightarrow> True | _ \<Rightarrow> False)"

text \<open>
  Property read \<^verbatim>\<open>v.k\<close> for the property names the code uses (none of them is a
  built-in property of strings, numbers or arrays): an own property of an object, and
  \<^verbatim>\<open>undefined\<close> on everything else. The callers below never read a property of
  \<^verbatim>\<open>null\<close> or \<^verbatim>\<open>undefined\<close> without a guard, except where the model says so.
\<close>

definition getProp :: "jsval \<Rightarrow> string \<Rightarrow> jsval" where
  "getProp v k = (case v of
      JObj kvs \<Rightarrow> (case map_of kvs k of Some x \<Rightarrow> x | None \<Rightarrow> JUndefined)
    | _ \<Rightarrow> JUndefined)"

text \<open>\<^verbatim>\<open>a || b\<close>.\<close>

definition jsOr :: "jsval \<Rightarrow> jsval \<Rightarrow> jsval" where
  "jsOr a b = (if truthy a then a else b)"

text \<open>
  \<^verbatim>\<open>v && typeof v === 'string' && v.startsWith(p)\<close>: the guard of the OpenAPI 3.x
  branch of every validator.
\<close>

definition stringStartsWith :: "jsval \<Rightarrow> string \<Rightarrow> bool" where
  "stringStartsWith v p = (case v of JStr s \<Rightarrow> s \<noteq> [] \<and> startsWith s p | _ \<Rightarrow> False)"

text \<open>The string a value known to be a string holds.\<close>

definition stringOf :: "jsval \<Rightarrow> string" where
  "stringOf v = (case v of JStr s \<Rightarrow> s | _ \<Rightarrow> [])"

text \<open>
  \<^verbatim>\<open>JSON.parse(JSON.stringify(v))\<close>, what a value is after it has been written to a file
  and read back: \<^verbatim>\<open>JSON.stringify\<close> leaves out the properties of an object whose value
  is \<^verbatim>\<open>undefined\<close> and writes \<^verbatim>\<open>null\<close> for an \<^verbatim>\<open>undefined\<close> item of an array; the
  other values of this model are written as they are. For the value of a property, the
  result \<open>JUndefined\<close> says that the property is not in the file.
\<close>

fun jsonValue :: "jsval \<Rightarrow> jsval"
  and jsonItems :: "jsval list \<Rightarrow> jsval list"
  and jsonProps :: "(string \<times> jsval) list \<Rightarrow> (string \<times> jsval) list" where
  "jsonValue (JArr xs) = JArr (jsonItems xs)"
| "jsonValue (JObj kvs) = JObj (jsonProps kvs)"
| "jsonValue JUndefined = JUndefined"
| "jsonValue JNull = JNull"
| "jsonValue (JBool b) = JBool b"
| "jsonValue (JNum n) = JNum n"
| "jsonValue (JStr s) = JStr s"
| "jsonItems [] = []"
| "jsonItems (x # xs) = (if x = JUndefined then JNull else jsonValue x) # jsonItems xs"
| "jsonProps [] = []"
| "jsonProps (kv # kvs) =
    (if snd kv = JUndefined then jsonProps kvs else (fst kv, jsonValue (snd kv)) # jsonProps kvs)"

section \<open>Structural validation of a parsed specification\<close>

record spec_info =
  si_type :: string
  si_version :: string
  si_title :: jsval
  si_apiVersion :: jsval

datatype openapi_error =
    FetchError string
  | ParseError string string
  | InvalidSpecError string string

text \<open>\<^verbatim>\<open>validateSpec(spec, url)\<close> of the direct-fetch extractor (openapi.js): throws.\<close>

definition validateSpec :: "jsval \<Rightarrow> string \<Rightarrow> openapi_error + spec_info" where
  "validateSpec spec url =
    (if \<not> truthy spec \<or> \<not> typeofObject spec then
       Inl (InvalidSpecError url ''Spec must be an object'')
     else if stringStartsWith (getProp spec ''openapi'') ''3.'' then
       (if \<not> truthy (getProp spec ''info'') then
          Inl (InvalidSpecError url ''Missing required \"info\" field'')
        else if \<not> truthy (getProp spec ''paths'') \<and> \<not> truthy (getProp spec ''webhooks'')
                \<and> \<not> truthy (getProp spec ''components'') then
          Inl (InvalidSpecError url ''Missing paths, webhooks, or components'')
        else
          Inr \<lparr> si_type = ''openapi'',
                si_version = stringOf (getProp spec ''openapi''),
                si_title = jsOr (getProp (getProp spec ''info'') ''title'') (JStr ''Unknown API''),
                si_apiVersion = jsOr (getProp (getProp spec ''info'') ''version'') (JStr ''unknown'') \<rparr>)
     else if getProp spec ''swagger'' = JStr ''2.0'' then
       (if \<not> truthy (getProp spec ''info'') then
          Inl (InvalidSpecError url ''Missing required \"info\" field'')
        else if \<not> truthy (getProp spec ''paths'') then
          Inl (InvalidSpecError url ''Missing required \"paths\" field'')
        else
          Inr \<lparr> si_type = ''swagger'',
                si_version = ''2.0'',
                si_title = jsOr (getProp (getProp spec ''info'') ''title'') (JStr ''Unknown API''),
                si_apiVersion = jsOr (getProp (getProp spec ''info'') ''version'') (JStr ''unknown'') \<rparr>)
     else
       Inl (InvalidSpecError url ''Not a valid OpenAPI 3.x or Swagger 2.0 specification''))"

text \<open>
  \<^verbatim>\<open>validateSpec(spec)\<close> of the Swagger UI extractor (swagger-ui.js) and of the Redoc
  extractor (redoc.js): the two functions have the same body; they return null where
  the one above throws, and their OpenAPI 3.x branch checks \<^verbatim>\<open>info\<close> only.
\<close>

definition rendered_validateSpec :: "jsval \<Rightarrow> spec_info option" where
  "rendered_validateSpec spec =
    (if \<not> truthy spec \<or> \<not> typeofObject spec then None
     else if stringStartsWith (getProp spec ''openapi'') ''3.'' then
       (if \<not> truthy (getProp spec ''info'') then None
        else
          Some \<lparr> si_type = ''openapi'',
                 si_version = stringOf (getProp spec ''openapi''),
                 si_title = jsOr (getProp (getProp spec ''info'') ''title'') (JStr ''Unknown API''),
                 si_apiVersion = jsOr (getProp (getProp spec ''info'') ''version'') (JStr ''unknown'') \<rparr>)
     else if getProp spec ''swagger'' = JStr ''2.0'' then
       (if \<not> truthy (getProp spec ''info'') \<or> \<not> truthy (getProp spec ''paths'') then None
        else
          Some \<lparr> si_type = ''swagger'',
                 si_version = ''2.0'',
                 si_title = jsOr (getProp (getProp spec ''info'') ''title'') (JStr ''Unknown API''),
                 si_apiVersion = jsOr (getProp (getProp spec ''info'') ''version'') (JStr ''unknown'') \<rparr>)
     else None)"

definition swaggerui_validateSpec :: "jsval \<Rightarrow> spec_info option" where
  "swaggerui_validateSpec spec = rendered_validateSpec spec"

definition redoc_validateSpec :: "jsval \<Rightarrow> spec_info option" where
  "redoc_validateSpec spec = rendered_validateSpec spec"

section \<open>Direct fetch and path probing (openapi.js)\<close>

definition COMMON_SPEC_PATHS :: "string list" where
  "COMMON_SPEC_PATHS =
    [''/openapi.json'', ''/openapi.yaml'', ''/openapi.yml'',
     ''/swagger.json'', ''/swagger.yaml'', ''/swagger.yml'',
     ''/api-docs'', ''/api-docs.json'', ''/api-docs.yaml'', ''/api-docs.yml'',
     ''/v2/api-docs'', ''/v3/api-docs'',
     ''/docs/openapi.json'', ''/docs/swagger.json'', ''/docs/openapi.yaml'', ''/docs/swagger.yaml'',
     ''/api/openapi.json'', ''/api/swagger.json'', ''/spec/openapi.json'',
     ''/swagger/v2/api-docs'', ''/swagger/v3/api-docs'']"

definition isDirectSpecUrl :: "string \<Rightarrow> bool" where
  "isDirectSpecUrl url =
    (let lower = toLowerCase url in
       endsWith lower ''.json'' \<or> endsWith lower ''.yaml'' \<or> endsWith lower ''.yml''
       \<or> includes_str lower ''/api-docs'' \<or> includes_str lower ''/openapi''
       \<or> includes_str lower ''/swagger'')"

text \<open>
  What the HTTP client gives for one request: the request is aborted by the timeout
  (\<^verbatim>\<open>AbortError\<close>), it fails at the network level, or a response arrives.
  \<open>resp_contentType\<close> is \<^verbatim>\<open>response.headers.get('content-type')\<close>, \<open>resp_body\<close> is
  \<^verbatim>\<open>await response.text()\<close> (None when reading the body rejects).
\<close>

record http_response =
  resp_ok :: bool
  resp_contentType :: "string option"
  resp_body :: "string option"

datatype fetch_outcome =
    FetchAborted
  | FetchNetworkError
  | FetchResponse http_response

text \<open>
  The world outside the program, as the extractor reads it: the network, the two
  parsers (\<^verbatim>\<open>JSON.parse\<close>, \<^verbatim>\<open>yaml.load\<close>; None when they throw) and the URL parser
  (\<open>url_origin u\<close> is \<^verbatim>\<open>protocol + '//' + host\<close> of \<^verbatim>\<open>new URL(u)\<close>, None when the
  constructor throws its TypeError).
\<close>

record web =
  http_fetch :: "string \<Rightarrow> fetch_outcome"
  JSON_parse :: "string \<Rightarrow> jsval option"
  yaml_load :: "string \<Rightarrow> jsval option"
  url_origin :: "string \<Rightarrow> string option"

text \<open>The YAML attempt of \<^verbatim>\<open>parseSpecContent\<close>: its second try block.\<close>

definition parseYaml :: "web \<Rightarrow> string \<Rightarrow> string \<Rightarrow> openapi_error + (jsval \<times> string)" where
  "parseYaml w trimmed url =
    (case yaml_load w trimmed of
       None \<Rightarrow> Inl (ParseError url ''yaml'')
     | Some parsed \<Rightarrow>
         if typeofObject parsed \<and> parsed \<noteq> JNull then Inr (parsed, ''yaml'')
         else Inl (ParseError url ''yaml''))"

definition parseSpecContent :: "web \<Rightarrow> string \<Rightarrow> string \<Rightarrow> openapi_error + (jsval \<times> string)" where
  "parseSpecContent w content url =
    (let trimmed = trim content; lower = toLowerCase url in
       if endsWith lower ''.json'' \<or> startsWith trimmed ''{'' then
         (case JSON_parse w trimmed of
            Some v \<Rightarrow> Inr (v, ''json'')
          | None \<Rightarrow>
              if endsWith lower ''.json'' then Inl (ParseError url ''json'')
              else parseYaml w trimmed url)
       else parseYaml w trimmed url)"

text \<open>
  What \<^verbatim>\<open>tryFetchSpec\<close> returns on success; \<^verbatim>\<open>fetchOpenAPISpec\<close> returns the same four
  values, the URL under the name \<^verbatim>\<open>sourceUrl\<close>.
\<close>

record fetched_spec =
  fs_spec :: jsval
  fs_format :: string
  fs_specInfo :: spec_info
  fs_url :: string

text \<open>
  \<^verbatim>\<open>tryFetchSpec(url)\<close>: every failure, the parse and validation errors included, is
  caught and becomes null.
\<close>

definition tryFetchSpec :: "web \<Rightarrow> string \<Rightarrow> fetched_spec option" where
  "tryFetchSpec w url =
    (case http_fetch w url of
       FetchAborted \<Rightarrow> None
     | FetchNetworkError \<Rightarrow> None
     | FetchResponse r \<Rightarrow>
         if \<not> resp_ok r then None
         else
           (case resp_body r of
              None \<Rightarrow> None
            | Some content \<Rightarrow>
                if includes_str (case resp_contentType r of Some c \<Rightarrow> c | None \<Rightarrow> []) ''text/html''
                   \<and> \<not> startsWith (trim content) ''{''
                then None
                else
                  (case parseSpecContent w content url of
                     Inl e \<Rightarrow> None
                   | Inr (spec, format) \<Rightarrow>
                       (case validateSpec spec url of
                          Inl e \<Rightarrow> None
                        | Inr info \<Rightarrow>
                            Some \<lparr> fs_spec = spec, fs_format = format,
                                    fs_specInfo = info, fs_url = url \<rparr>))))"

text \<open>
  The probing loop of \<^verbatim>\<open>fetchOpenAPISpec\<close>: the candidate paths in order, stopping at the
  first one that \<^verbatim>\<open>tryFetchSpec\<close> accepts. The second component lists the URLs requested,
  in the order of the requests.
\<close>

fun probePaths :: "web \<Rightarrow> string \<Rightarrow> string list \<Rightarrow> fetched_spec option \<times> string list" where
  "probePaths w baseUrl [] = (None, [])"
| "probePaths w baseUrl (p # ps) =
    (case tryFetchSpec w (baseUrl @ p) of
       Some r \<Rightarrow> (Some r, [baseUrl @ p])
     | None \<Rightarrow> (case probePaths w baseUrl ps of (res, requested) \<Rightarrow> (res, (baseUrl @ p) # requested)))"

text \<open>The first lines of \<^verbatim>\<open>fetchOpenAPISpec\<close>: trim, default scheme, no trailing slash.\<close>

definition normalizeUrl :: "string \<Rightarrow> string" where
  "normalizeUrl url =
    (let t = trim url;
         u = (if \<not> startsWith t ''http://'' \<and> \<not> startsWith t ''https://'' then ''https://'' @ t else t)
     in rev (dropWhile (\<lambda>c. c = CHR ''/'') (rev u)))"

text \<open>
  What \<^verbatim>\<open>fetchOpenAPISpec\<close> can throw: nothing of the extractor's own errors reaches it
  through \<^verbatim>\<open>tryFetchSpec\<close>; \<^verbatim>\<open>getBaseUrl\<close> throws when the target is not a URL.
\<close>

datatype fetch_thrown =
    ThrownOpenAPI openapi_error
  | ThrownTypeError

definition fetchOpenAPISpec ::
  "web \<Rightarrow> string \<Rightarrow> bool \<Rightarrow> (fetch_thrown + fetched_spec option) \<times> string list" where
  "fetchOpenAPISpec w url probeCommonPaths =
    (let normalizedUrl = normalizeUrl url;
         direct = isDirectSpecUrl normalizedUrl;
         first = (if direct then tryFetchSpec w normalizedUrl else None);
         requested = (if direct then [normalizedUrl] else [])
     in case first of
          Some r \<Rightarrow> (Inr (Some r), requested)
        | None \<Rightarrow>
            if probeCommonPaths then
              (case (if direct then url_origin w normalizedUrl else Some normalizedUrl) of
                 None \<Rightarrow> (Inl ThrownTypeError, requested)
               | Some baseUrl \<Rightarrow>
                   (case probePaths w baseUrl COMMON_SPEC_PATHS of
                      (res, probed) \<Rightarrow> (Inr res, requested @ probed)))
            else (Inr None, requested))"

section \<open>The specification cache (cache.js)\<close>

text \<open>
  Time is the millisecond count of a \<^verbatim>\<open>Date\<close>; an ISO-8601 timestamp of the manifest is
  kept as the count it denotes (\<^verbatim>\<open>new Date(d.toISOString())\<close> is \<open>d\<close> again). A \<^verbatim>\<open>Date\<close>
  holds at most \<open>MAX_TIME\<close> milliseconds either side of the epoch; \<^verbatim>\<open>toISOString\<close>
  throws a RangeError beyond.
\<close>

definition MAX_TIME :: int where
  "MAX_TIME = 8640000000000000"

datatype cache_error =
    CacheNotFoundError string
  | CacheExpiredError string "int option"
  | CacheIOError string string
  | SyntaxError
  | TypeError
  | RangeError

record manifest_specInfo =
  ms_title :: jsval
  ms_version :: jsval
  ms_type :: string

record manifest_entry =
  me_url :: string
  me_filename :: string
  me_cachedAt :: int
  me_expiresAt :: "int option"
  me_specInfo :: manifest_specInfo

record cache_metadata =
  md_url :: string
  md_cachedAt :: int
  md_expiresAt :: "int option"
  md_originalFormat :: string
  md_specType :: string
  md_specVersion :: "string option"

record cached_data =
  cd_metadata :: cache_metadata
  cd_spec :: jsval

text \<open>
  A file of the cache directory, as \<^verbatim>\<open>readFile\<close> followed by \<^verbatim>\<open>JSON.parse\<close> finds it:
  not there (ENOENT), not readable (any other failure of the read, or text that is not
  JSON), or holding the JSON text of a document, kept as the document \<^verbatim>\<open>JSON.parse\<close>
  gives for it. The functions that write a file store what \<^verbatim>\<open>JSON.stringify\<close> keeps of
  the value they write (\<open>jsonValue\<close>).
\<close>

datatype 'a disk_file = Missing | Unreadable | Stored 'a

text \<open>
  The cache directory and the part of the process the cache functions share: the manifest
  file \<^verbatim>\<open>index.json\<close> (its \<^verbatim>\<open>entries\<close>, by key), the specification files by file name,
  whether \<^verbatim>\<open>mkdir\<close> and a write to a file name succeed, and the \<^verbatim>\<open>entries\<close> object of the
  constant \<^verbatim>\<open>EMPTY_MANIFEST\<close>, which \<^verbatim>\<open>{ ...EMPTY_MANIFEST }\<close> copies by reference. File
  names stand for the paths under the cache directory; a key is sixteen hexadecimal
  digits, so no specification file is the manifest file.
\<close>

record cache_state =
  manifest_file :: "(string \<rightharpoonup> manifest_entry) disk_file"
  spec_files :: "string \<Rightarrow> cached_data disk_file"
  mkdir_ok :: bool
  write_ok :: "string \<Rightarrow> bool"
  EMPTY_MANIFEST_entries :: "string \<rightharpoonup> manifest_entry"

definition MANIFEST_FILENAME :: string where
  "MANIFEST_FILENAME = ''index.json''"

text \<open>
  \<^verbatim>\<open>generateCacheKey(url)\<close>. The digest (\<^verbatim>\<open>createHash('sha256')\<close> of node:crypto, in
  hexadecimal) is a parameter.
\<close>

definition generateCacheKey :: "(string \<Rightarrow> string) \<Rightarrow> string \<Rightarrow> string" where
  "generateCacheKey sha256hex url = take 16 (sha256hex (toLowerCase (trim url)))"

definition ensureCacheDirectory :: "cache_state \<Rightarrow> cache_error + unit" where
  "ensureCacheDirectory st =
    (if mkdir_ok st then Inr () else Inl (CacheIOError ''create directory'' []))"

definition readManifest :: "cache_state \<Rightarrow> cache_error + (string \<rightharpoonup> manifest_entry)" where
  "readManifest st =
    (case manifest_file st of
       Stored entries \<Rightarrow> Inr entries
     | Missing \<Rightarrow> Inr (EMPTY_MANIFEST_entries st)
     | Unreadable \<Rightarrow> Inl (CacheIOError ''read manifest'' MANIFEST_FILENAME))"

text \<open>
  An entry of the manifest as the manifest file holds it: \<^verbatim>\<open>title\<close> and \<^verbatim>\<open>version\<close> are
  whatever the document has at \<^verbatim>\<open>info.title\<close> and \<^verbatim>\<open>info.version\<close>, written as JSON.
\<close>

definition jsonEntry :: "manifest_entry \<Rightarrow> manifest_entry" where
  "jsonEntry entry =
    entry\<lparr> me_specInfo :=
             \<lparr> ms_title = jsonValue (ms_title (me_specInfo entry)),
               ms_version = jsonValue (ms_version (me_specInfo entry)),
               ms_type = ms_type (me_specInfo entry) \<rparr> \<rparr>"

definition writeManifest :: "(string \<rightharpoonup> manifest_entry) \<Rightarrow> cache_state \<Rightarrow> (cache_error + unit) \<times> cache_state" where
  "writeManifest entries st =
    (case ensureCacheDirectory st of
       Inl e \<Rightarrow> (Inl e, st)
     | Inr u \<Rightarrow>
         if write_ok st MANIFEST_FILENAME then
           (Inr (), st\<lparr> manifest_file := Stored (\<lambda>key. map_option jsonEntry (entries key)) \<rparr>)
         else (Inl (CacheIOError ''write manifest'' MANIFEST_FILENAME), st))"

definition isExpired :: "manifest_entry \<Rightarrow> int \<Rightarrow> bool" where
  "isExpired entry now = (case me_expiresAt entry of None \<Rightarrow> False | Some e \<Rightarrow> e < now)"

record normalized_spec =
  ns_title :: jsval
  ns_version :: jsval
  ns_type :: string
  ns_specVersion :: "string option"
  ns_originalFormat :: string

text \<open>
  \<^verbatim>\<open>normalizeSpec(spec, originalFormat)\<close>. Reading \<^verbatim>\<open>spec.openapi\<close> of null or undefined
  throws, and so does \<^verbatim>\<open>spec.openapi.startsWith\<close> when \<^verbatim>\<open>spec.openapi\<close> is truthy and
  not a string.
\<close>

definition normalizeSpec :: "jsval \<Rightarrow> string \<Rightarrow> cache_error + normalized_spec" where
  "normalizeSpec spec originalFormat =
    (if spec = JNull \<or> spec = JUndefined then Inl TypeError
     else if truthy (getProp spec ''openapi'') \<and> \<not> typeofString (getProp spec ''openapi'') then Inl TypeError
     else
       (let (specType, specVersion) =
              (if stringStartsWith (getProp spec ''openapi'') ''3.'' then
                 (''openapi'', Some (stringOf (getProp spec ''openapi'')))
               else if getProp spec ''swagger'' = JStr ''2.0'' then (''swagger'', Some ''2.0'')
               else (''unknown'', None))
        in Inr \<lparr> ns_title = jsOr (getProp (getProp spec ''info'') ''title'') (JStr ''Unknown API''),
                  ns_version = jsOr (getProp (getProp spec ''info'') ''version'') (JStr ''unknown''),
                  ns_type = specType,
                  ns_specVersion = specVersion,
                  ns_originalFormat = originalFormat \<rparr>))"

text \<open>\<^verbatim>\<open>getCached(url, { ignoreExpired })\<close>, read at the time \<open>now\<close>.\<close>

definition getCached ::
  "(string \<Rightarrow> string) \<Rightarrow> string \<Rightarrow> bool \<Rightarrow> int \<Rightarrow> cache_state \<Rightarrow> cache_error + cached_data" where
  "getCached sha256hex url ignoreExpired now st =
    (case readManifest st of
       Inl e \<Rightarrow> Inl e
     | Inr entries \<Rightarrow>
         (case entries (generateCacheKey sha256hex url) of
            None \<Rightarrow> Inl (CacheNotFoundError url)
          | Some entry \<Rightarrow>
              if \<not> ignoreExpired \<and> isExpired entry now then
                Inl (CacheExpiredError url (me_expiresAt entry))
              else
                (case spec_files st (me_filename entry) of
                   Stored d \<Rightarrow> Inr d
                 | Missing \<Rightarrow> Inl (CacheNotFoundError url)
                 | Unreadable \<Rightarrow> Inl (CacheIOError ''read spec'' (me_filename entry)))))"

text \<open>
  \<^verbatim>\<open>typeof spec === 'string' ? JSON.parse(spec) : spec\<close>, the first statement of
  \<^verbatim>\<open>setCache\<close>; \<open>json_parse\<close> is \<^verbatim>\<open>JSON.parse\<close> (None when it throws).
\<close>

definition specObjOf :: "(string \<Rightarrow> jsval option) \<Rightarrow> jsval \<Rightarrow> cache_error + jsval" where
  "specObjOf json_parse spec =
    (case spec of
       JStr s \<Rightarrow> (case json_parse s of Some v \<Rightarrow> Inr v | None \<Rightarrow> Inl SyntaxError)
     | _ \<Rightarrow> Inr spec)"

text \<open>
  \<^verbatim>\<open>ttl ? new Date(now.getTime() + ttl).toISOString() : null\<close>: a ttl that is null or 0
  gives no expiry.
\<close>

definition expiresAtOf :: "int option \<Rightarrow> int \<Rightarrow> cache_error + int option" where
  "expiresAtOf ttl now =
    (case ttl of
       None \<Rightarrow> Inr None
     | Some t \<Rightarrow>
         if t = 0 then Inr None
         else if MAX_TIME < \<bar>now + t\<bar> then Inl RangeError
         else Inr (Some (now + t)))"

text \<open>
  \<^verbatim>\<open>setCache(url, spec, { ttl, originalFormat })\<close>, run at the time \<open>now\<close>: the result
  and the state it leaves, also when it throws after the specification file is written.
  The specification file holds \<^verbatim>\<open>JSON.stringify(cachedData)\<close>; the entry returned is the
  object in memory.
\<close>

definition setCache ::
  "(string \<Rightarrow> string) \<Rightarrow> (string \<Rightarrow> jsval option) \<Rightarrow> string \<Rightarrow> jsval \<Rightarrow> int option \<Rightarrow> string
     \<Rightarrow> int \<Rightarrow> cache_state \<Rightarrow> (cache_error + manifest_entry) \<times> cache_state" where
  "setCache sha256hex json_parse url spec ttl originalFormat now st =
    (case specObjOf json_parse spec of
       Inl e \<Rightarrow> (Inl e, st)
     | Inr specObj \<Rightarrow>
    (case ensureCacheDirectory st of
       Inl e \<Rightarrow> (Inl e, st)
     | Inr u \<Rightarrow>
    (let key = generateCacheKey sha256hex url; filename = key @ ''.json'' in
    (case expiresAtOf ttl now of
       Inl e \<Rightarrow> (Inl e, st)
     | Inr expiresAt \<Rightarrow>
    (case normalizeSpec specObj originalFormat of
       Inl e \<Rightarrow> (Inl e, st)
     | Inr specInfo \<Rightarrow>
    (let cachedData =
           \<lparr> cd_metadata =
               \<lparr> md_url = url, md_cachedAt = now, md_expiresAt = expiresAt,
                 md_originalFormat = originalFormat, md_specType = ns_type specInfo,
                 md_specVersion = ns_specVersion specInfo \<rparr>,
             cd_spec = specObj \<rparr>
     in
       if \<not> write_ok st filename then (Inl (CacheIOError ''write spec'' filename), st)
       else
         (let st1 = st\<lparr> spec_files := (spec_files st)(filename :=
                         Stored (cachedData\<lparr> cd_spec := jsonValue specObj \<rparr>)) \<rparr> in
          (case readManifest st1 of
             Inl e \<Rightarrow> (Inl e, st1)
           | Inr entries \<Rightarrow>
               (let entry =
                      \<lparr> me_url = url, me_filename = filename, me_cachedAt = now,
                        me_expiresAt = expiresAt,
                        me_specInfo = \<lparr> ms_title = ns_title specInfo,
                                        ms_version = ns_version specInfo,
                                        ms_type = ns_type specInfo \<rparr> \<rparr>;
                    entries' = entries(key \<mapsto> entry);
                    st2 = (case manifest_file st1 of
                             Missing \<Rightarrow> st1\<lparr> EMPTY_MANIFEST_entries := entries' \<rparr>
                           | _ \<Rightarrow> st1)
                in (case writeManifest entries' st2 of
                      (Inl e, st3) \<Rightarrow> (Inl e, st3)
                    | (Inr u, st3) \<Rightarrow> (Inr entry, st3)))))))))))"

section \<open>Provider discovery (apitracker.js, discovery.js)\<close>

text \<open>What a call into the browser driver gives: it throws (with a message) or returns.\<close>

datatype 'a attempt = Throws string | Returns 'a

text \<open>
  A link of the loaded page, as the in-page code reads it: its \<^verbatim>\<open>href\<close> attribute, its
  \<^verbatim>\<open>textContent\<close>, and the \<^verbatim>\<open>textContent\<close> of
  \<^verbatim>\<open>link.closest('div, li, article')\<close> (None when there is no such ancestor).
\<close>

record anchor =
  a_href :: string
  a_textContent :: string
  a_closestText :: "string option"

text \<open>
  A page after navigation: \<^verbatim>\<open>page.url()\<close>, whether \<^verbatim>\<open>waitForSelector('body')\<close>
  succeeds, and the elements \<^verbatim>\<open>a[href]\<close> in document order (None when
  \<^verbatim>\<open>page.evaluate\<close> throws).
\<close>

record api_page =
  pg_url :: string
  pg_hasBody :: bool
  pg_anchors :: "anchor list option"


datatype apitracker_error =
    APITrackerSearchError string string
  | APITrackerNotFoundError string
  | DocsUrlNotFoundError string
  | DriverError string







text \<open>
  \<^verbatim>\<open>s.match(/\/a\/([^/?#]+)/)\<close>: the first capture group of the leftmost match, the
  provider slug of an APITracker URL.
\<close>

definition slugChar :: "char \<Rightarrow> bool" where
  "slugChar c = (c \<notin> set ''/?#'')"

primrec matchProviderSlug :: "string \<Rightarrow> string option" where
  "matchProviderSlug [] = None"
| "matchProviderSlug (c # cs) =
    (if startsWith (c # cs) ''/a/'' \<and> takeWhile slugChar (drop 2 cs) \<noteq> []
     then Some (takeWhile slugChar (drop 2 cs))
     else matchProviderSlug cs)"

subsection \<open>Ranking the search results\<close>

record search_hit =
  sh_url :: string
  sh_slug :: string
  sh_text :: string
  sh_score :: nat

definition scoreOf :: "string \<Rightarrow> string \<Rightarrow> string \<Rightarrow> string \<Rightarrow> nat" where
  "scoreOf slug linkText parentText searchQuery =
    (if slug = searchQuery then 100
     else if startsWith slug searchQuery then 80
     else if includes_str slug searchQuery then 60
     else if includes_str linkText searchQuery then 40
     else if includes_str parentText searchQuery then 20
     else 0)"

text \<open>One turn of the loop over the links \<^verbatim>\<open>a[href*="/a/"]\<close>: the hit it pushes, if any.\<close>

definition hitOf :: "string \<Rightarrow> anchor \<Rightarrow> search_hit option" where
  "hitOf searchQuery link =
    (let href = a_href link;
         linkText = toLowerCase (trim (a_textContent link));
         parentText = (case a_closestText link of Some t \<Rightarrow> toLowerCase (trim t) | None \<Rightarrow> [])
     in case matchProviderSlug href of
          None \<Rightarrow> None
        | Some m \<Rightarrow>
            (let slug = toLowerCase m; score = scoreOf slug linkText parentText searchQuery in
               if 0 < score then
                 Some \<lparr> sh_url = (if startsWith href ''http'' then href else ''https://apitracker.io'' @ href),
                        sh_slug = slug, sh_text = linkText, sh_score = score \<rparr>
               else None))"

text \<open>
  \<^verbatim>\<open>results.sort((a, b) => b.score - a.score)\<close>: a stable sort, highest score first.
  Each hit, from the last to the first, is put in front of the hits after it that score
  no more than it does, so hits with one score keep the order of the page.
\<close>

primrec insertByScore :: "search_hit \<Rightarrow> search_hit list \<Rightarrow> search_hit list" where
  "insertByScore h [] = [h]"
| "insertByScore h (x # xs) =
    (if sh_score x \<le> sh_score h then h # x # xs else x # insertByScore h xs)"

definition sortByScore :: "search_hit list \<Rightarrow> search_hit list" where
  "sortByScore hs = foldr insertByScore hs []"

text \<open>\<^verbatim>\<open>findBestSearchResult(page, query)\<close>.\<close>

definition findBestSearchResult :: "api_page \<Rightarrow> string \<Rightarrow> apitracker_error + search_hit option" where
  "findBestSearchResult page query =
    (case pg_anchors page of
       None \<Rightarrow> Inl (DriverError ''evaluate'')
     | Some links \<Rightarrow>
         (case sortByScore (List.map_filter (hitOf query)
                 (filter (\<lambda>l. includes_str (a_href l) ''/a/'') links)) of
            [] \<Rightarrow> Inr None
          | h # hs \<Rightarrow> Inr (Some h)))"

subsection \<open>The documentation link of a provider page\<close>












subsection \<open>Searching a provider\<close>




subsection \<open>The lookup with its cache (discovery.js)\<close>











section \<open>Rendered pages\<close>

text \<open>
  An element of the rendered document, as the in-page code reads it: its
  \<^verbatim>\<open>textContent\<close>, its \<^verbatim>\<open>innerText\<close>, its attributes, and for a selector the elements
  \<^verbatim>\<open>el.querySelectorAll(selector)\<close> gives, in document order
  (\<^verbatim>\<open>el.querySelector(selector)\<close> is the first of them).
\<close>

datatype dom_element =
  Element (el_textContent: string) (el_innerText: string)
          (el_attrs: "(string \<times> string) list") (el_queryAll: "string \<Rightarrow> dom_element list")

definition el_query :: "dom_element \<Rightarrow> string \<Rightarrow> dom_element option" where
  "el_query el selector = (case el_queryAll el selector of [] \<Rightarrow> None | e # es \<Rightarrow> Some e)"

text \<open>A response the page received while it loaded, as the interception handler sees it.\<close>

record net_response =
  nr_url :: string
  nr_contentType :: "string option"
  nr_body :: "string option"

record page_body =
  body_innerText :: string
  body_innerHTML :: string

text \<open>What the extractors return for the metadata of a scraped page.\<close>

record api_info =
  ai_title :: string
  ai_version :: "string option"
  ai_description :: "string option"

text \<open>What the Redoc script inspection finds: an inline specification or its URL.\<close>

datatype script_result = InlineSpec jsval | SpecUrl string

text \<open>
  A page after \<^verbatim>\<open>page.goto\<close>. The document is read through \<open>rp_queryAll\<close>
  (\<^verbatim>\<open>document.querySelectorAll\<close>), \<open>rp_title\<close>, \<open>rp_body\<close> (None when
  \<^verbatim>\<open>document.body\<close> is null) and \<open>rp_window\<close> (a global of \<^verbatim>\<open>window\<close>, \<open>JUndefined\<close>
  when it is not set; a library handle such as \<^verbatim>\<open>window.ui\<close> is an object here, its
  methods are not modelled). \<open>rp_evaluate\<close> tells whether \<^verbatim>\<open>page.evaluate\<close> and
  \<^verbatim>\<open>page.waitForFunction\<close> can run code in the page at all. \<open>rp_responses\<close> are the
  responses the page received while loading, in order.

  Four results of code that runs inside the page on library objects, by \<^verbatim>\<open>eval\<close> or
  through the page's own \<^verbatim>\<open>fetch\<close> are taken as the page gives them:
  \<open>rp_swaggerSpecJson\<close> is \<^verbatim>\<open>window.ui.specSelectors.specJson().toJS()\<close>,
  \<open>rp_windowUISpec\<close> what the in-page part of \<^verbatim>\<open>extractSpecFromWindowUI\<close> returns,
  \<open>rp_inlineScriptSpec\<close> what the in-page part of the Swagger UI extractor's
  \<^verbatim>\<open>extractSpecFromScripts\<close> returns, \<open>rp_redocScripts\<close> what the Redoc extractor's
  returns, \<open>rp_fetchJson url\<close> what \<^verbatim>\<open>(await fetch(url)).json()\<close> gives in the page, and
  \<open>rp_apiInfo framework\<close> what \<^verbatim>\<open>extractApiInfo\<close> returns.
\<close>

record rendered_page =
  rp_evaluate :: "unit attempt"
  rp_queryAll :: "string \<Rightarrow> dom_element list"
  rp_title :: string
  rp_body :: "page_body option"
  rp_window :: "string \<Rightarrow> jsval"
  rp_responses :: "net_response list"
  rp_swaggerSpecJson :: "jsval attempt"
  rp_windowUISpec :: jsval
  rp_inlineScriptSpec :: jsval
  rp_redocScripts :: "script_result option"
  rp_fetchJson :: "string \<Rightarrow> jsval attempt"
  rp_apiInfo :: "string \<Rightarrow> api_info attempt"

definition rp_query :: "rendered_page \<Rightarrow> string \<Rightarrow> dom_element option" where
  "rp_query page selector = (case rp_queryAll page selector of [] \<Rightarrow> None | e # es \<Rightarrow> Some e)"

text \<open>
  The browser as the rendering extractors use it: \<^verbatim>\<open>getPage\<close> (it throws a
  \<^verbatim>\<open>BrowserError\<close>), and \<^verbatim>\<open>page.goto(url)\<close>, which times out, fails otherwise, or
  leaves a page. Closing the page succeeds.
\<close>

datatype nav_failure = NavTimeout | NavFailed string

record renderer =
  rd_getPage :: "unit attempt"
  rd_goto :: "string \<Rightarrow> nav_failure + rendered_page"

datatype extractor_error =
    BrowserError string
  | ExtractionTimeoutError string nat
  | PageLoadError string
  | AuthenticationRequiredError string
  | SpecNotFoundError string
  | ExtractorError string

subsection \<open>The authentication wall\<close>

text \<open>\<^verbatim>\<open>detectAuthRequired(page)\<close> of the Swagger UI extractor.\<close>

definition swaggerui_detectAuthRequired :: "rendered_page \<Rightarrow> bool" where
  "swaggerui_detectAuthRequired page =
    (case rp_evaluate page of
       Throws m \<Rightarrow> False
     | Returns u \<Rightarrow>
         (let pageText = (case rp_body page of Some b \<Rightarrow> toLowerCase (body_innerText b) | None \<Rightarrow> []);
              hasLoginForm = (rp_query page ''input[type=\"password\"]'' \<noteq> None
                              \<or> rp_query page ''form[action*=\"login\"]'' \<noteq> None);
              hasAuthText = (includes_str pageText ''log in'' \<or> includes_str pageText ''sign in''
                             \<or> includes_str pageText ''authentication required''
                             \<or> includes_str pageText ''unauthorized'')
          in hasLoginForm \<or> hasAuthText))"

text \<open>\<^verbatim>\<open>detectAuthRequired(page)\<close> of the Redoc extractor.\<close>

definition redoc_detectAuthRequired :: "rendered_page \<Rightarrow> bool" where
  "redoc_detectAuthRequired page =
    (case rp_evaluate page of
       Throws m \<Rightarrow> False
     | Returns u \<Rightarrow>
         (let hasLoginForm = (rp_query page ''input[type=\"password\"]'' \<noteq> None
                              \<or> rp_query page ''form[action*=\"login\"]'' \<noteq> None);
              title = toLowerCase (rp_title page);
              h1Text = (case rp_query page ''h1'' of Some h \<Rightarrow> toLowerCase (el_innerText h) | None \<Rightarrow> []);
              hasAuthTitle = (includes_str title ''log in'' \<or> includes_str title ''sign in''
                              \<or> includes_str title ''login'' \<or> includes_str title ''authentication'');
              hasAuthHeader = (includes_str h1Text ''log in'' \<or> includes_str h1Text ''sign in''
                               \<or> includes_str h1Text ''authentication required'')
          in hasLoginForm \<or> hasAuthTitle \<or> hasAuthHeader))"

subsection \<open>The Swagger UI extractor (swagger-ui.js)\<close>

text \<open>The first lines of both rendering extractors: trim and default scheme.\<close>

definition normalizePageUrl :: "string \<Rightarrow> string" where
  "normalizePageUrl url =
    (let t = trim url in
       if \<not> startsWith t ''http://'' \<and> \<not> startsWith t ''https://'' then ''https://'' @ t else t)"

text \<open>\<^verbatim>\<open>SPEC_URL_PATTERNS.some(pattern => pattern.test(url))\<close>, swagger-ui.js.\<close>

definition swaggerui_isSpecUrl :: "string \<Rightarrow> bool" where
  "swaggerui_isSpecUrl url =
    list_ex (includes_str (toLowerCase url))
      [''openapi.json'', ''openapi.yaml'', ''swagger.json'', ''swagger.yaml'',
       ''api-docs'', ''/v2/api-docs'', ''/v3/api-docs'']"

text \<open>
  The response handler of \<^verbatim>\<open>setupNetworkInterception\<close>, run over the responses in order
  with \<^verbatim>\<open>capturedSpec\<close> and \<^verbatim>\<open>capturedUrl\<close> as its state.
\<close>

primrec swaggerui_intercept ::
  "(string \<Rightarrow> jsval option) \<Rightarrow> net_response list \<Rightarrow> (jsval \<times> string) option \<Rightarrow> (jsval \<times> string) option" where
  "swaggerui_intercept json_parse [] captured = captured"
| "swaggerui_intercept json_parse (r # rs) captured =
    swaggerui_intercept json_parse rs
      (if captured \<noteq> None then captured
       else if \<not> swaggerui_isSpecUrl (nr_url r) then None
       else if includes_str (case nr_contentType r of Some c \<Rightarrow> c | None \<Rightarrow> []) ''text/html'' then None
       else
         (case nr_body r of
            None \<Rightarrow> None
          | Some body \<Rightarrow>
              if body = [] \<or> startsWith (trim body) ''<'' then None
              else
                (case json_parse body of
                   None \<Rightarrow> None
                 | Some parsed \<Rightarrow>
                     if swaggerui_validateSpec parsed \<noteq> None then Some (parsed, nr_url r) else None)))"

text \<open>\<^verbatim>\<open>waitForSwaggerUI(page)\<close>.\<close>

definition waitForSwaggerUI :: "rendered_page \<Rightarrow> bool" where
  "waitForSwaggerUI page =
    (case rp_evaluate page of
       Throws m \<Rightarrow> False
     | Returns u \<Rightarrow>
         rp_window page ''ui'' \<noteq> JUndefined \<or> rp_query page ''.swagger-ui'' \<noteq> None
         \<or> rp_query page ''#swagger-ui'' \<noteq> None)"

text \<open>The three strategies of \<^verbatim>\<open>extractFromSwaggerUI\<close>, after the page is loaded.\<close>

definition swaggerui_strategies ::
  "(string \<Rightarrow> jsval option) \<Rightarrow> rendered_page \<Rightarrow> string \<Rightarrow> fetched_spec option" where
  "swaggerui_strategies json_parse page normalizedUrl =
    (let evaluates = (case rp_evaluate page of Throws m \<Rightarrow> False | Returns u \<Rightarrow> True);
         spec1 = (if waitForSwaggerUI page \<and> evaluates then rp_windowUISpec page else JNull);
         networkResult = swaggerui_intercept json_parse (rp_responses page) None;
         (spec2, sourceUrl) =
           (if \<not> truthy spec1 then
              (case networkResult of Some (s, u) \<Rightarrow> (s, u) | None \<Rightarrow> (spec1, normalizedUrl))
            else (spec1, normalizedUrl));
         spec3 = (if \<not> truthy spec2 then (if evaluates then rp_inlineScriptSpec page else JNull) else spec2)
     in if truthy spec3 then
          (case swaggerui_validateSpec spec3 of
             Some specInfo \<Rightarrow>
               Some \<lparr> fs_spec = spec3, fs_format = ''json'', fs_specInfo = specInfo, fs_url = sourceUrl \<rparr>
           | None \<Rightarrow> None)
        else None)"

text \<open>\<^verbatim>\<open>extractFromSwaggerUI(url, { timeout })\<close>.\<close>

definition extractFromSwaggerUI ::
  "renderer \<Rightarrow> (string \<Rightarrow> jsval option) \<Rightarrow> string \<Rightarrow> nat \<Rightarrow> extractor_error + fetched_spec option" where
  "extractFromSwaggerUI rd json_parse url timeout =
    (let normalizedUrl = normalizePageUrl url in
     case rd_getPage rd of
       Throws m \<Rightarrow> Inl (BrowserError m)
     | Returns u \<Rightarrow>
         (case rd_goto rd normalizedUrl of
            Inl NavTimeout \<Rightarrow> Inl (ExtractionTimeoutError normalizedUrl timeout)
          | Inl (NavFailed m) \<Rightarrow> Inl (PageLoadError normalizedUrl)
          | Inr page \<Rightarrow>
              if swaggerui_detectAuthRequired page then Inl (AuthenticationRequiredError normalizedUrl)
              else Inr (swaggerui_strategies json_parse page normalizedUrl)))"

subsection \<open>The Redoc extractor (redoc.js)\<close>

definition redoc_isSpecUrl :: "string \<Rightarrow> bool" where
  "redoc_isSpecUrl url =
    (list_ex (includes_str (toLowerCase url))
       [''openapi.json'', ''openapi.yaml'', ''openapi.yml'', ''swagger.json'', ''swagger.yaml'',
        ''swagger.yml'', ''api-docs'', ''/v2/api-docs'', ''/v3/api-docs'']
     \<or> list_ex (endsWith (toLowerCase url)) [''.yaml'', ''.yml'', ''.json''])"

text \<open>JSON first, then YAML: the parse of the Redoc interception handler.\<close>

definition parseJsonOrYaml :: "web \<Rightarrow> string \<Rightarrow> jsval" where
  "parseJsonOrYaml w body =
    (case JSON_parse w body of
       Some v \<Rightarrow> v
     | None \<Rightarrow> (case yaml_load w body of Some v \<Rightarrow> v | None \<Rightarrow> JNull))"

primrec redoc_intercept ::
  "web \<Rightarrow> net_response list \<Rightarrow> (jsval \<times> string) option \<Rightarrow> (jsval \<times> string) option" where
  "redoc_intercept w [] captured = captured"
| "redoc_intercept w (r # rs) captured =
    redoc_intercept w rs
      (if captured \<noteq> None then captured
       else if \<not> redoc_isSpecUrl (nr_url r) then None
       else if includes_str (case nr_contentType r of Some c \<Rightarrow> c | None \<Rightarrow> []) ''text/html'' then None
       else
         (case nr_body r of
            None \<Rightarrow> None
          | Some body \<Rightarrow>
              if body = [] \<or> startsWith (trim body) ''<'' then None
              else
                (let parsed = parseJsonOrYaml w body in
                   if truthy parsed \<and> redoc_validateSpec parsed \<noteq> None
                   then Some (parsed, nr_url r) else None)))"

definition waitForRedoc :: "rendered_page \<Rightarrow> bool" where
  "waitForRedoc page =
    (case rp_evaluate page of
       Throws m \<Rightarrow> False
     | Returns u \<Rightarrow>
         rp_window page ''__redoc_state'' \<noteq> JUndefined \<or> rp_window page ''__REDOC_STORE__'' \<noteq> JUndefined
         \<or> rp_query page ''.redoc-wrap'' \<noteq> None \<or> rp_query page ''[data-role=\"redoc\"]'' \<noteq> None
         \<or> rp_query page ''redoc'' \<noteq> None \<or> rp_query page ''.api-content'' \<noteq> None)"

text \<open>
  One of the two blocks of \<^verbatim>\<open>extractSpecFromGlobalState\<close>: where a Redoc state object
  keeps the specification. None when reading through a null state throws.
\<close>

definition specOfRedocState :: "jsval \<Rightarrow> jsval option option" where
  "specOfRedocState state =
    (if state = JNull then None
     else if truthy (getProp state ''spec'') \<and> truthy (getProp (getProp state ''spec'') ''data'')
       then Some (Some (getProp (getProp state ''spec'') ''data''))
     else if truthy (getProp state ''spec'') then Some (Some (getProp state ''spec''))
     else if truthy (getProp state ''definition'')
             \<and> truthy (getProp (getProp state ''definition'') ''spec'')
       then Some (Some (getProp (getProp state ''definition'') ''spec''))
     else if truthy (getProp state ''openapi'') \<or> truthy (getProp state ''swagger'')
       then Some (Some state)
     else Some None)"

definition extractSpecFromGlobalState :: "rendered_page \<Rightarrow> jsval" where
  "extractSpecFromGlobalState page =
    (case rp_evaluate page of
       Throws m \<Rightarrow> JNull
     | Returns u \<Rightarrow>
         (case (if rp_window page ''__redoc_state'' \<noteq> JUndefined
                then specOfRedocState (rp_window page ''__redoc_state'') else Some None) of
            None \<Rightarrow> JNull
          | Some (Some s) \<Rightarrow> s
          | Some None \<Rightarrow>
              (case (if rp_window page ''__REDOC_STORE__'' \<noteq> JUndefined
                     then specOfRedocState (rp_window page ''__REDOC_STORE__'') else Some None) of
                 None \<Rightarrow> JNull
               | Some (Some s) \<Rightarrow> s
               | Some None \<Rightarrow> JNull)))"

text \<open>
  \<^verbatim>\<open>fetchSpecFromUrl(specUrl, baseUrl)\<close>. \<open>resolve\<close> is \<^verbatim>\<open>new URL(specUrl, baseUrl).href\<close>
  (None when it throws).
\<close>

definition fetchSpecFromUrl :: "web \<Rightarrow> (string \<Rightarrow> string \<Rightarrow> string option) \<Rightarrow> string \<Rightarrow> string \<Rightarrow> jsval" where
  "fetchSpecFromUrl w resolve specUrl baseUrl =
    (case resolve specUrl baseUrl of
       None \<Rightarrow> JNull
     | Some absoluteUrl \<Rightarrow>
         (case http_fetch w absoluteUrl of
            FetchResponse r \<Rightarrow>
              if \<not> resp_ok r then JNull
              else (case resp_body r of None \<Rightarrow> JNull | Some body \<Rightarrow> parseJsonOrYaml w body)
          | _ \<Rightarrow> JNull))"

definition redoc_strategies ::
  "web \<Rightarrow> (string \<Rightarrow> string \<Rightarrow> string option) \<Rightarrow> rendered_page \<Rightarrow> string \<Rightarrow> fetched_spec option" where
  "redoc_strategies w resolve page normalizedUrl =
    (let evaluates = (case rp_evaluate page of Throws m \<Rightarrow> False | Returns u \<Rightarrow> True);
         spec1 = (if waitForRedoc page then extractSpecFromGlobalState page else JNull);
         networkResult = redoc_intercept w (rp_responses page) None;
         (spec2, sourceUrl2) =
           (if \<not> truthy spec1 then
              (case networkResult of Some (s, u) \<Rightarrow> (s, u) | None \<Rightarrow> (spec1, normalizedUrl))
            else (spec1, normalizedUrl));
         (spec3, sourceUrl3) =
           (if \<not> truthy spec2 then
              (case (if evaluates then rp_redocScripts page else None) of
                 None \<Rightarrow> (spec2, sourceUrl2)
               | Some (InlineSpec s) \<Rightarrow>
                   if truthy s then (s, sourceUrl2) else (spec2, sourceUrl2)
               | Some (SpecUrl specUrl) \<Rightarrow>
                   if specUrl = [] then (spec2, sourceUrl2)
                   else
                     (let fetched = fetchSpecFromUrl w resolve specUrl normalizedUrl in
                        if truthy fetched
                        then (fetched, (case resolve specUrl normalizedUrl of Some h \<Rightarrow> h | None \<Rightarrow> sourceUrl2))
                        else (fetched, sourceUrl2)))
            else (spec2, sourceUrl2))
     in if truthy spec3 then
          (case redoc_validateSpec spec3 of
             Some specInfo \<Rightarrow>
               Some \<lparr> fs_spec = spec3, fs_format = ''json'', fs_specInfo = specInfo, fs_url = sourceUrl3 \<rparr>
           | None \<Rightarrow> None)
        else None)"

text \<open>\<^verbatim>\<open>extractFromRedoc(url, { timeout })\<close>.\<close>

definition extractFromRedoc ::
  "renderer \<Rightarrow> web \<Rightarrow> (string \<Rightarrow> string \<Rightarrow> string option) \<Rightarrow> string \<Rightarrow> nat
     \<Rightarrow> extractor_error + fetched_spec option" where
  "extractFromRedoc rd w resolve url timeout =
    (let normalizedUrl = normalizePageUrl url in
     case rd_getPage rd of
       Throws m \<Rightarrow> Inl (BrowserError m)
     | Returns u \<Rightarrow>
         (case rd_goto rd normalizedUrl of
            Inl NavTimeout \<Rightarrow> Inl (ExtractionTimeoutError normalizedUrl timeout)
          | Inl (NavFailed m) \<Rightarrow> Inl (PageLoadError normalizedUrl)
          | Inr page \<Rightarrow>
              if redoc_detectAuthRequired page then Inl (AuthenticationRequiredError normalizedUrl)
              else Inr (redoc_strategies w resolve page normalizedUrl)))"

section \<open>Scraping endpoints from a rendered page (docs-scraper.js)\<close>

record endpoint =
  ep_method :: string
  ep_path :: string
  ep_description :: jsval
  ep_tags :: jsval
  ep_operationId :: jsval

datatype scraper_error =
    FrameworkNotDetectedError string
  | ExtractionError string string string
  | DocsPageLoadError string string

record scrape_result =
  sr_url :: string
  sr_framework :: string
  sr_apiInfo :: api_info
  sr_endpoints :: "endpoint list"
  sr_extractedAt :: int

subsection \<open>Endpoints of a specification object\<close>

definition OPERATION_KEYS :: "string list" where
  "OPERATION_KEYS = [''get'', ''post'', ''put'', ''delete'', ''patch'', ''options'', ''head'']"

definition decimalDigit :: "nat \<Rightarrow> char" where
  "decimalDigit n = ''0123456789'' ! (n mod 10)"

fun decimal :: "nat \<Rightarrow> string" where
  "decimal n = (if n < 10 then [decimalDigit n] else decimal (n div 10) @ [decimalDigit n])"

declare decimal.simps [simp del]

text \<open>
  \<^verbatim>\<open>Object.entries(v)\<close>: the pairs of an object in their order, the indexed elements of an
  array or a string, nothing for a number or a boolean; None when it throws (null,
  undefined).
\<close>

definition objectEntries :: "jsval \<Rightarrow> (string \<times> jsval) list option" where
  "objectEntries v =
    (case v of
       JObj kvs \<Rightarrow> Some kvs
     | JArr xs \<Rightarrow> Some (zip (map decimal [0..<length xs]) xs)
     | JStr s \<Rightarrow> Some (zip (map decimal [0..<length s]) (map (\<lambda>c. JStr [c]) s))
     | JNull \<Rightarrow> None
     | JUndefined \<Rightarrow> None
     | _ \<Rightarrow> Some [])"

text \<open>
  The inner loop, over the operations of one path. None when reading \<^verbatim>\<open>details.summary\<close>
  throws (details null or undefined).
\<close>

primrec pathEndpoints :: "string \<Rightarrow> (string \<times> jsval) list \<Rightarrow> endpoint list option" where
  "pathEndpoints path [] = Some []"
| "pathEndpoints path (md # rest) =
    (if toLowerCase (fst md) \<in> set OPERATION_KEYS then
       (if snd md = JNull \<or> snd md = JUndefined then None
        else
          map_option
            ((#) \<lparr> ep_method = toUpperCase (fst md), ep_path = path,
                   ep_description = jsOr (jsOr (getProp (snd md) ''summary'') (getProp (snd md) ''description'')) (JStr []),
                   ep_tags = jsOr (getProp (snd md) ''tags'') (JArr []),
                   ep_operationId = jsOr (getProp (snd md) ''operationId'') JNull \<rparr>)
            (pathEndpoints path rest))
     else pathEndpoints path rest)"

text \<open>The outer loop, over the entries of \<^verbatim>\<open>spec.paths\<close>.\<close>

primrec pathsEndpoints :: "(string \<times> jsval) list \<Rightarrow> endpoint list option" where
  "pathsEndpoints [] = Some []"
| "pathsEndpoints (pm # rest) =
    (case objectEntries (snd pm) of
       None \<Rightarrow> None
     | Some ms \<Rightarrow>
         (case pathEndpoints (fst pm) ms of
            None \<Rightarrow> None
          | Some es \<Rightarrow> map_option ((@) es) (pathsEndpoints rest)))"

text \<open>
  The endpoints of a truthy \<^verbatim>\<open>paths\<close> value: the loop the four extractors share. None
  when it throws a TypeError.
\<close>

definition endpointsOfPaths :: "jsval \<Rightarrow> endpoint list option" where
  "endpointsOfPaths paths =
    (case objectEntries paths of None \<Rightarrow> None | Some pms \<Rightarrow> pathsEndpoints pms)"

subsection \<open>Scanning text for a method and a path\<close>

definition METHODS5 :: "string list" where
  "METHODS5 = [''GET'', ''POST'', ''PUT'', ''DELETE'', ''PATCH'']"

definition METHODS7 :: "string list" where
  "METHODS7 = [''GET'', ''POST'', ''PUT'', ''DELETE'', ''PATCH'', ''OPTIONS'', ''HEAD'']"

definition lineTerminator :: "char \<Rightarrow> bool" where
  "lineTerminator c = (c = CHR 0x0A \<or> c = CHR 0x0D)"

text \<open>
  The alternation \<^verbatim>\<open>(GET|POST|...)\<close> under the flag \<^verbatim>\<open>i\<close>, at the start of \<open>s\<close>: the
  method in upper case. No method is a prefix of another, so at most one matches.
\<close>

definition methodPrefix :: "string list \<Rightarrow> string \<Rightarrow> string option" where
  "methodPrefix methods s = find (\<lambda>m. toUpperCase (take (length m) s) = m) methods"

text \<open>
  \<^verbatim>\<open>(M)\s+(\/[C]+)\<close> at the start of \<open>s\<close>, for a character class \<open>C\<close>: the method,
  the path and the length of the match. \<^verbatim>\<open>\s+\<close> takes all the white space after the
  method (the slash that must follow is no white space) and \<^verbatim>\<open>[C]+\<close> the longest run.
\<close>

definition matchMethodPathAt :: "string list \<Rightarrow> (char \<Rightarrow> bool) \<Rightarrow> string \<Rightarrow> (string \<times> string \<times> nat) option" where
  "matchMethodPathAt methods pathChar s =
    (case methodPrefix methods s of
       None \<Rightarrow> None
     | Some m \<Rightarrow>
         (let r = drop (length m) s;
              ws = takeWhile isWhiteSpace r;
              r' = dropWhile isWhiteSpace r
          in if ws = [] then None
             else
               (case r' of
                  [] \<Rightarrow> None
                | c # cs \<Rightarrow>
                    if c = CHR ''/'' \<and> takeWhile pathChar cs \<noteq> [] then
                      Some (m, c # takeWhile pathChar cs,
                            length m + length ws + 1 + length (takeWhile pathChar cs))
                    else None)))"

text \<open>
  \<^verbatim>\<open>text.matchAll(/(M)\s+(\/[C]+)/gi)\<close>: the matches from left to right, each search
  starting where the last match ended. \<open>skip\<close> counts the characters of the last match
  still to pass.
\<close>

primrec scanMethodPaths :: "string list \<Rightarrow> (char \<Rightarrow> bool) \<Rightarrow> string \<Rightarrow> nat \<Rightarrow> (string \<times> string) list" where
  "scanMethodPaths methods pathChar [] skip = []"
| "scanMethodPaths methods pathChar (c # cs) skip =
    (if 0 < skip then scanMethodPaths methods pathChar cs (skip - 1)
     else
       (case matchMethodPathAt methods pathChar (c # cs) of
          Some (m, p, n) \<Rightarrow> (m, p) # scanMethodPaths methods pathChar cs (n - 1)
        | None \<Rightarrow> scanMethodPaths methods pathChar cs 0))"

text \<open>\<^verbatim>\<open>[^\s\n]\<close>, \<^verbatim>\<open>[^\s\n'"]\<close> and \<^verbatim>\<open>[a-zA-Z0-9_\-/{}\[\]]\<close>.\<close>

definition notSpaceChar :: "char \<Rightarrow> bool" where
  "notSpaceChar c = (\<not> isWhiteSpace c)"

definition notSpaceQuoteChar :: "char \<Rightarrow> bool" where
  "notSpaceQuoteChar c = (\<not> isWhiteSpace c \<and> c \<noteq> CHR 0x27 \<and> c \<noteq> CHR 0x22)"

definition pathWordChar :: "char \<Rightarrow> bool" where
  "pathWordChar c = (c \<in> set (upperLetters @ lowerLetters @ ''0123456789'' @ ''_-/{}[]''))"

text \<open>
  \<^verbatim>\<open>text.match(/^(GET|...|HEAD)\s+(.+)/i)\<close>, the Redoc menu pattern: the method and the
  second group, trimmed as the caller trims it. \<^verbatim>\<open>\s+\<close> takes all the white space after
  the method and \<^verbatim>\<open>.+\<close> the rest of the line. When only white space follows the method,
  \<^verbatim>\<open>\s+\<close> gives characters back to \<^verbatim>\<open>.+\<close> (which takes no line terminator), and the
  group is white space: trimmed, the empty string.
\<close>

definition matchMenuItem :: "string \<Rightarrow> (string \<times> string) option" where
  "matchMenuItem s =
    (case methodPrefix METHODS7 s of
       None \<Rightarrow> None
     | Some m \<Rightarrow>
         (let r = drop (length m) s;
              ws = takeWhile isWhiteSpace r;
              r' = dropWhile isWhiteSpace r
          in if ws = [] then None
             else if r' \<noteq> [] then Some (m, trim (takeWhile (\<lambda>c. \<not> lineTerminator c) r'))
             else if list_ex (\<lambda>c. \<not> lineTerminator c) (tl ws) then Some (m, [])
             else None))"

text \<open>\<^verbatim>\<open>text.match(/^(GET|POST|PUT|DELETE|PATCH)\s+(\/.+)/i)\<close>, the Scalar sidebar pattern.\<close>

definition matchNavItem :: "string \<Rightarrow> (string \<times> string) option" where
  "matchNavItem s =
    (case methodPrefix METHODS5 s of
       None \<Rightarrow> None
     | Some m \<Rightarrow>
         (let r = drop (length m) s;
              ws = takeWhile isWhiteSpace r;
              r' = dropWhile isWhiteSpace r
          in if ws = [] then None
             else
               (case r' of
                  [] \<Rightarrow> None
                | c # cs \<Rightarrow>
                    if c = CHR ''/'' \<and> takeWhile (\<lambda>c. \<not> lineTerminator c) cs \<noteq> []
                    then Some (m, c # takeWhile (\<lambda>c. \<not> lineTerminator c) cs)
                    else None)))"

subsection \<open>The extractors of the four frameworks\<close>

definition domEndpoint :: "string \<Rightarrow> string \<Rightarrow> string \<Rightarrow> endpoint" where
  "domEndpoint m p d =
    \<lparr> ep_method = m, ep_path = p, ep_description = JStr d, ep_tags = JArr [], ep_operationId = JNull \<rparr>"

text \<open>\<^verbatim>\<open>el?.textContent?.trim()\<close>, with the empty string for undefined.\<close>

definition trimmedText :: "dom_element option \<Rightarrow> string" where
  "trimmedText e = (case e of Some el \<Rightarrow> trim (el_textContent el) | None \<Rightarrow> [])"

text \<open>
  The set \<^verbatim>\<open>seen\<close> and the array \<^verbatim>\<open>endpoints\<close> of an extraction; \<open>pushUnseen\<close> is
  \<^verbatim>\<open>if (!seen.has(key)) { seen.add(key); endpoints.push(ep); }\<close>.
\<close>

type_synonym scrape_state = "string list \<times> endpoint list"

definition pushUnseen :: "string \<Rightarrow> endpoint \<Rightarrow> scrape_state \<Rightarrow> scrape_state" where
  "pushUnseen key ep st =
    (case st of (seen, endpoints) \<Rightarrow>
       if key \<in> set seen then (seen, endpoints) else (seen @ [key], endpoints @ [ep]))"

text \<open>Swagger UI: one \<^verbatim>\<open>.opblock\<close> of the DOM fallback.\<close>

definition swaggerOperation :: "dom_element \<Rightarrow> endpoint list" where
  "swaggerOperation op =
    (let methodEl = el_query op ''.opblock-summary-method'';
         pathEl = el_query op ''.opblock-summary-path, .opblock-summary-path__deprecated'';
         descEl = el_query op ''.opblock-summary-description''
     in if methodEl \<noteq> None \<and> pathEl \<noteq> None then
          [domEndpoint
             (if toUpperCase (trimmedText methodEl) = [] then ''UNKNOWN'' else toUpperCase (trimmedText methodEl))
             (trimmedText pathEl) (trimmedText descEl)]
        else [])"

text \<open>
  \<^verbatim>\<open>extractSwaggerUiEndpoints(page)\<close>; an extractor throws when code running in the page
  throws.
\<close>

definition extractSwaggerUiEndpoints :: "rendered_page \<Rightarrow> endpoint list attempt" where
  "extractSwaggerUiEndpoints page =
    (case rp_evaluate page of
       Throws m \<Rightarrow> Throws m
     | Returns u \<Rightarrow>
         (let ui = rp_window page ''ui'';
              specEndpoints =
                (if truthy ui \<and> truthy (getProp ui ''specSelectors'') then
                   (case rp_swaggerSpecJson page of
                      Throws m \<Rightarrow> None
                    | Returns spec \<Rightarrow>
                        if truthy spec \<and> truthy (getProp spec ''paths'')
                        then endpointsOfPaths (getProp spec ''paths'') else None)
                 else None)
          in case specEndpoints of
               Some (e # es) \<Rightarrow> Returns (e # es)
             | _ \<Rightarrow> Returns (concat (map swaggerOperation (rp_queryAll page ''.opblock'')))))"

text \<open>Redoc: one operation element of the DOM fallback.\<close>

definition redocOperation :: "dom_element \<Rightarrow> endpoint list" where
  "redocOperation op =
    (let methodEl = el_query op ''.http-verb, [class*=\"http-verb\"], [class*=\"method\"]'';
         pathEl = el_query op ''.operation-path, [class*=\"path\"], code'';
         descEl = el_query op ''.operation-summary, [class*=\"summary\"], p''
     in if methodEl \<noteq> None \<or> pathEl \<noteq> None then
          (let m = (if toUpperCase (trimmedText methodEl) = [] then ''UNKNOWN''
                    else toUpperCase (trimmedText methodEl));
               p = trimmedText pathEl
           in if p \<noteq> [] \<and> startsWith p ''/'' then [domEndpoint m p (trimmedText descEl)] else [])
        else [])"

text \<open>Redoc: one link of the menu, when no operation element gave an endpoint.\<close>

definition redocMenuItem :: "dom_element \<Rightarrow> endpoint list" where
  "redocMenuItem item =
    (case matchMenuItem (el_textContent item) of
       Some (m, p) \<Rightarrow> [domEndpoint m p []]
     | None \<Rightarrow> [])"

text \<open>The DOM fallback of \<^verbatim>\<open>extractRedocEndpoints\<close>: its second \<^verbatim>\<open>page.evaluate\<close>.\<close>

definition redocDomEndpoints :: "rendered_page \<Rightarrow> endpoint list" where
  "redocDomEndpoints page =
    (let endpoints =
           concat (map redocOperation (rp_queryAll page ''[data-section-id*=\"operation\"], .operation''))
     in if endpoints = [] then
          concat (map redocMenuItem (rp_queryAll page ''[class*=\"menu-content\"] a, .api-content a''))
        else endpoints)"

definition extractRedocEndpoints :: "rendered_page \<Rightarrow> endpoint list attempt" where
  "extractRedocEndpoints page =
    (case rp_evaluate page of
       Throws m \<Rightarrow> Throws m
     | Returns u \<Rightarrow>
         (let state = jsOr (rp_window page ''__redoc_state'') (rp_window page ''__REDOC_STORE__'');
              paths = getProp (getProp (getProp state ''spec'') ''data'') ''paths''
          in if truthy state \<and> truthy (getProp state ''spec'')
                \<and> truthy (getProp (getProp state ''spec'') ''data'') \<and> truthy paths then
               (case endpointsOfPaths paths of
                  None \<Rightarrow> Throws ''TypeError''
                | Some [] \<Rightarrow> Returns (redocDomEndpoints page)
                | Some (e # es) \<Rightarrow> Returns (e # es))
             else Returns (redocDomEndpoints page)))"

text \<open>
  Scalar: the inline specification of a script,
  \<^verbatim>\<open>content.match(/\{[\s\S]*"(openapi|swagger)"[\s\S]*"paths"[\s\S]*\}/)\<close>. When the
  pattern matches at all it matches from the first \<^verbatim>\<open>{\<close> to the last \<^verbatim>\<open>}\<close>.
\<close>

primrec afterFirst :: "string \<Rightarrow> string \<Rightarrow> string option" where
  "afterFirst [] p = (if p = [] then Some [] else None)"
| "afterFirst (c # cs) p =
    (if startsWith (c # cs) p then Some (drop (length p) (c # cs)) else afterFirst cs p)"

definition inlineSpecVia :: "string \<Rightarrow> string \<Rightarrow> bool" where
  "inlineSpecVia keyword rest =
    (case afterFirst rest keyword of
       None \<Rightarrow> False
     | Some r1 \<Rightarrow>
         (case afterFirst r1 ''\"paths\"'' of
            None \<Rightarrow> False
          | Some r2 \<Rightarrow> CHR ''}'' \<in> set r2))"

definition matchInlineSpec :: "string \<Rightarrow> string option" where
  "matchInlineSpec content =
    (case dropWhile (\<lambda>c. c \<noteq> CHR ''{'') content of
       [] \<Rightarrow> None
     | b # rest \<Rightarrow>
         if inlineSpecVia ''\"openapi\"'' rest \<or> inlineSpecVia ''\"swagger\"'' rest
         then Some (rev (dropWhile (\<lambda>c. c \<noteq> CHR ''}'') (rev (b # rest))))
         else None)"

text \<open>
  Scalar: the loop over the script elements. The first script whose text holds a
  specification with a truthy \<^verbatim>\<open>paths\<close> decides; a script whose text does not parse, or
  whose endpoints cannot be read, is passed over.
\<close>

primrec scalarInlineEndpoints :: "(string \<Rightarrow> jsval option) \<Rightarrow> string list \<Rightarrow> endpoint list option" where
  "scalarInlineEndpoints json_parse [] = None"
| "scalarInlineEndpoints json_parse (content # rest) =
    (if includes_str content ''\"openapi\"'' \<or> includes_str content ''\"swagger\"'' then
       (case matchInlineSpec content of
          None \<Rightarrow> scalarInlineEndpoints json_parse rest
        | Some literal \<Rightarrow>
            (case json_parse literal of
               None \<Rightarrow> scalarInlineEndpoints json_parse rest
             | Some spec \<Rightarrow>
                 if spec = JNull then scalarInlineEndpoints json_parse rest
                 else if truthy (getProp spec ''paths'') then
                   (case endpointsOfPaths (getProp spec ''paths'') of
                      None \<Rightarrow> scalarInlineEndpoints json_parse rest
                    | Some es \<Rightarrow> Some es)
                 else scalarInlineEndpoints json_parse rest))
     else scalarInlineEndpoints json_parse rest)"

text \<open>\<^verbatim>\<open>el.getAttribute(name)\<close>, the empty string standing for null as well.\<close>

definition attrOf :: "dom_element option \<Rightarrow> string \<Rightarrow> string" where
  "attrOf e name =
    (case e of
       None \<Rightarrow> []
     | Some el \<Rightarrow> (case map_of (el_attrs el) name of Some v \<Rightarrow> v | None \<Rightarrow> []))"

definition scalarSpecUrl :: "rendered_page \<Rightarrow> string" where
  "scalarSpecUrl page =
    (let scalarEl = rp_query page ''[data-spec-url], [data-configuration], .scalar-api-reference'' in
       if attrOf scalarEl ''data-spec-url'' \<noteq> [] then attrOf scalarEl ''data-spec-url''
       else if attrOf scalarEl ''data-url'' \<noteq> [] then attrOf scalarEl ''data-url''
       else attrOf (rp_query page ''script[data-spec]'') ''data-spec'')"

text \<open>Scalar: one operation element of the DOM fallback.\<close>

definition scalarOperation :: "dom_element \<Rightarrow> scrape_state \<Rightarrow> scrape_state" where
  "scalarOperation op st =
    (let methodEl = el_query op
           ''[class*=\"method\"], [class*=\"http-method\"], .badge, [class*=\"request-method\"], [class*=\"HttpMethod\"]'';
         pathEl = el_query op
           ''[class*=\"path\"], [class*=\"url\"], code, [class*=\"endpoint-path\"], [class*=\"OperationPath\"]'';
         descEl = el_query op
           ''[class*=\"description\"], [class*=\"summary\"], [class*=\"Description\"], p:not([class*=\"path\"])'';
         m = toUpperCase (trimmedText methodEl);
         p = trimmedText pathEl
     in if m \<noteq> [] \<and> p \<noteq> [] \<and> m \<in> set METHODS7 then
          pushUnseen (m @ '':'' @ p) (domEndpoint m p (trimmedText descEl)) st
        else st)"

text \<open>Scalar: one link of the sidebar, and one match of the page text.\<close>

definition scalarNavItem :: "dom_element \<Rightarrow> scrape_state \<Rightarrow> scrape_state" where
  "scalarNavItem item st =
    (case matchNavItem (el_textContent item) of
       Some (m, p) \<Rightarrow> pushUnseen (m @ '':'' @ trim p) (domEndpoint m (trim p) []) st
     | None \<Rightarrow> st)"

definition pushMatch :: "string \<times> string \<Rightarrow> scrape_state \<Rightarrow> scrape_state" where
  "pushMatch mp st = pushUnseen (fst mp @ '':'' @ snd mp) (domEndpoint (fst mp) (snd mp) []) st"

text \<open>
  The DOM fallback of \<^verbatim>\<open>extractScalarEndpoints\<close>: its last \<^verbatim>\<open>page.evaluate\<close>, with the
  three layers that share \<^verbatim>\<open>seen\<close>. It throws when the last layer reads the text of a
  missing body.
\<close>

definition scalarDomEndpoints :: "rendered_page \<Rightarrow> endpoint list attempt" where
  "scalarDomEndpoints page =
    (let st1 = fold scalarOperation
                 (rp_queryAll page
                    ''.scalar-card, [class*=\"operation\"], [class*=\"endpoint\"], .request-block, [class*=\"HttpOperation\"]'')
                 ([], []);
         st2 = (if snd st1 = [] then
                  fold scalarNavItem
                    (rp_queryAll page ''.sidebar a, nav a, [class*=\"sidebar\"] a, [class*=\"navigation\"] a'') st1
                else st1)
     in if snd st2 = [] then
          (case rp_body page of
             None \<Rightarrow> Throws ''TypeError''
           | Some b \<Rightarrow>
               Returns (snd (fold pushMatch (scanMethodPaths METHODS5 notSpaceChar (body_innerText b) 0) st2)))
        else Returns (snd st2))"

definition extractScalarEndpoints :: "(string \<Rightarrow> jsval option) \<Rightarrow> rendered_page \<Rightarrow> endpoint list attempt" where
  "extractScalarEndpoints json_parse page =
    (case rp_evaluate page of
       Throws m \<Rightarrow> Throws m
     | Returns u \<Rightarrow>
         (case scalarInlineEndpoints json_parse (map el_textContent (rp_queryAll page ''script'')) of
            Some (e # es) \<Rightarrow> Returns (e # es)
          | Some [] \<Rightarrow> scalarDomEndpoints page
          | None \<Rightarrow>
              if scalarSpecUrl page \<noteq> [] then
                (case rp_fetchJson page (scalarSpecUrl page) of
                   Throws m \<Rightarrow> scalarDomEndpoints page
                 | Returns specResponse \<Rightarrow>
                     if truthy specResponse \<and> truthy (getProp specResponse ''paths'') then
                       (case endpointsOfPaths (getProp specResponse ''paths'') of
                          Some (e # es) \<Rightarrow> Returns (e # es)
                        | _ \<Rightarrow> scalarDomEndpoints page)
                     else scalarDomEndpoints page)
              else scalarDomEndpoints page))"

text \<open>Generic pages: a code block, \<^verbatim>\<open>match[2].replace(/['"]+$/, '')\<close> for the path.\<close>

definition pushCodeMatch :: "string \<times> string \<Rightarrow> scrape_state \<Rightarrow> scrape_state" where
  "pushCodeMatch mp st =
    pushUnseen (fst mp @ '':'' @ snd mp)
      (domEndpoint (fst mp)
         (rev (dropWhile (\<lambda>c. c = CHR 0x27 \<or> c = CHR 0x22) (rev (snd mp)))) []) st"

definition genericCodeBlock :: "dom_element \<Rightarrow> scrape_state \<Rightarrow> scrape_state" where
  "genericCodeBlock block st =
    fold pushCodeMatch (scanMethodPaths METHODS7 notSpaceQuoteChar (el_textContent block) 0) st"

text \<open>
  Generic pages: a table row. For each of the first three cells that holds a method, the
  first later cell that starts with \<^verbatim>\<open>/\<close> is the path and the cell after it the
  description.
\<close>

primrec firstPathCell :: "string list \<Rightarrow> (string \<times> string) option" where
  "firstPathCell [] = None"
| "firstPathCell (c # cs) =
    (if startsWith c ''/'' then Some (c, (case cs of [] \<Rightarrow> [] | d # ds \<Rightarrow> d)) else firstPathCell cs)"

definition genericRowCell :: "string list \<Rightarrow> nat \<Rightarrow> scrape_state \<Rightarrow> scrape_state" where
  "genericRowCell cellTexts i st =
    (if toUpperCase (cellTexts ! i) \<in> set METHODS5 then
       (case firstPathCell (drop (Suc i) cellTexts) of
          Some (p, d) \<Rightarrow>
            pushUnseen (toUpperCase (cellTexts ! i) @ '':'' @ p)
              (domEndpoint (toUpperCase (cellTexts ! i)) p d) st
        | None \<Rightarrow> st)
     else st)"

definition genericRow :: "dom_element \<Rightarrow> scrape_state \<Rightarrow> scrape_state" where
  "genericRow row st =
    (let cellTexts = map (\<lambda>c. trim (el_textContent c)) (el_queryAll row ''td, th'') in
       fold (genericRowCell cellTexts) [0..<min (length cellTexts) 3] st)"

definition genericTable :: "dom_element \<Rightarrow> scrape_state \<Rightarrow> scrape_state" where
  "genericTable table st = fold genericRow (el_queryAll table ''tr'') st"

definition extractGenericEndpoints :: "rendered_page \<Rightarrow> endpoint list attempt" where
  "extractGenericEndpoints page =
    (case rp_evaluate page of
       Throws m \<Rightarrow> Throws m
     | Returns u \<Rightarrow>
         (let st1 = fold genericCodeBlock (rp_queryAll page ''pre, code, .highlight'') ([], []);
              st2 = fold genericTable (rp_queryAll page ''table'') st1
          in if snd st2 = [] then
               (case rp_body page of
                  None \<Rightarrow> Throws ''TypeError''
                | Some b \<Rightarrow>
                    Returns (snd (fold pushMatch (scanMethodPaths METHODS5 pathWordChar (body_innerText b) 0) st2)))
             else Returns (snd st2)))"

subsection \<open>Detecting the framework\<close>

definition wordChar :: "char \<Rightarrow> bool" where
  "wordChar c = (c \<in> set (upperLetters @ lowerLetters @ ''0123456789_''))"

definition letterChar :: "char \<Rightarrow> bool" where
  "letterChar c = (c \<in> set (upperLetters @ lowerLetters))"

text \<open>\<^verbatim>\<open>/\b(GET|POST|PUT|DELETE|PATCH)\b/gi\<close> matches somewhere.\<close>

primrec hasMethodWord :: "string \<Rightarrow> bool \<Rightarrow> bool" where
  "hasMethodWord [] afterWordChar = False"
| "hasMethodWord (c # cs) afterWordChar =
    ((\<not> afterWordChar
      \<and> (case methodPrefix METHODS5 (c # cs) of
           None \<Rightarrow> False
         | Some m \<Rightarrow> (case drop (length m) (c # cs) of [] \<Rightarrow> True | d # ds \<Rightarrow> \<not> wordChar d)))
     \<or> hasMethodWord cs (wordChar c))"

text \<open>\<^verbatim>\<open>/\/[a-z]+\/\{[^}]+\}/gi\<close> matches somewhere.\<close>

definition templatedPathAt :: "string \<Rightarrow> bool" where
  "templatedPathAt s =
    (case s of
       [] \<Rightarrow> False
     | c # cs \<Rightarrow>
         c = CHR ''/'' \<and> takeWhile letterChar cs \<noteq> []
         \<and> startsWith (dropWhile letterChar cs) ''/{''
         \<and> takeWhile (\<lambda>c. c \<noteq> CHR ''}'') (drop 2 (dropWhile letterChar cs)) \<noteq> []
         \<and> dropWhile (\<lambda>c. c \<noteq> CHR ''}'') (drop 2 (dropWhile letterChar cs)) \<noteq> [])"

primrec hasTemplatedPath :: "string \<Rightarrow> bool" where
  "hasTemplatedPath [] = False"
| "hasTemplatedPath (c # cs) = (templatedPathAt (c # cs) \<or> hasTemplatedPath cs)"

text \<open>\<^verbatim>\<open>/\/api\/[a-z]+/gi\<close> matches somewhere.\<close>

primrec hasApiPath :: "string \<Rightarrow> bool" where
  "hasApiPath [] = False"
| "hasApiPath (c # cs) =
    ((startsWith (toLowerCase (c # cs)) ''/api/''
      \<and> (case drop 4 cs of [] \<Rightarrow> False | d # ds \<Rightarrow> letterChar d))
     \<or> hasApiPath cs)"

text \<open>\<^verbatim>\<open>detectFramework(page)\<close>: it throws when the page cannot run code or has no body.\<close>

definition detectFramework :: "rendered_page \<Rightarrow> string option attempt" where
  "detectFramework page =
    (case rp_evaluate page of
       Throws m \<Rightarrow> Throws m
     | Returns u \<Rightarrow>
         if rp_query page ''.swagger-ui'' \<noteq> None \<or> rp_query page ''#swagger-ui'' \<noteq> None
            \<or> truthy (rp_window page ''ui'') \<or> truthy (rp_window page ''SwaggerUIBundle'')
         then Returns (Some ''swagger-ui'')
         else if rp_query page ''.redoc-wrap'' \<noteq> None \<or> rp_query page ''redoc'' \<noteq> None
            \<or> truthy (rp_window page ''__redoc_state'') \<or> truthy (rp_window page ''__REDOC_STORE__'')
            \<or> rp_query page ''[data-role=\"redoc\"]'' \<noteq> None
         then Returns (Some ''redoc'')
         else if rp_query page ''.scalar-app'' \<noteq> None \<or> rp_query page ''[data-scalar]'' \<noteq> None
            \<or> rp_query page ''.scalar-api-reference'' \<noteq> None \<or> rp_query page ''#scalar'' \<noteq> None
            \<or> truthy (rp_window page ''ScalarApiReference'')
         then Returns (Some ''scalar'')
         else
           (case rp_body page of
              None \<Rightarrow> Throws ''TypeError''
            | Some b \<Rightarrow>
                if hasMethodWord (body_innerHTML b) False
                   \<and> (hasTemplatedPath (body_innerHTML b) \<or> hasApiPath (body_innerHTML b))
                then Returns (Some ''generic'') else Returns None))"

subsection \<open>The entry point\<close>

text \<open>\<^verbatim>\<open>extractEndpoints(page, framework, url)\<close>.\<close>

definition extractEndpoints ::
  "(string \<Rightarrow> jsval option) \<Rightarrow> rendered_page \<Rightarrow> string \<Rightarrow> string \<Rightarrow> scraper_error + endpoint list" where
  "extractEndpoints json_parse page framework url =
    (case (if framework = ''swagger-ui'' then extractSwaggerUiEndpoints page
           else if framework = ''redoc'' then extractRedocEndpoints page
           else if framework = ''scalar'' then extractScalarEndpoints json_parse page
           else if framework = ''generic'' then extractGenericEndpoints page
           else Throws (''Unknown framework: '' @ framework)) of
       Throws m \<Rightarrow> Inl (ExtractionError url framework m)
     | Returns es \<Rightarrow> Inr es)"

text \<open>
  \<^verbatim>\<open>scrapeEndpoints(url, { framework })\<close> at the time \<open>now\<close>; \<open>forcedFramework\<close> is the
  option \<^verbatim>\<open>framework\<close>, empty when it is not given. There is no authentication check
  on this path.
\<close>

definition scrapeEndpoints ::
  "renderer \<Rightarrow> (string \<Rightarrow> jsval option) \<Rightarrow> string \<Rightarrow> string \<Rightarrow> int \<Rightarrow> scraper_error + scrape_result" where
  "scrapeEndpoints rd json_parse url forcedFramework now =
    (case rd_getPage rd of
       Throws m \<Rightarrow> Inl (DocsPageLoadError url m)
     | Returns u \<Rightarrow>
         (case rd_goto rd url of
            Inl NavTimeout \<Rightarrow> Inl (DocsPageLoadError url ''Timeout while loading page'')
          | Inl (NavFailed m) \<Rightarrow> Inl (DocsPageLoadError url m)
          | Inr page \<Rightarrow>
              (case (if forcedFramework \<noteq> [] then Returns (Some forcedFramework)
                     else detectFramework page) of
                 Throws m \<Rightarrow> Inl (DocsPageLoadError url m)
               | Returns None \<Rightarrow> Inl (FrameworkNotDetectedError url)
               | Returns (Some framework) \<Rightarrow>
                   (case extractEndpoints json_parse page framework url of
                      Inl e \<Rightarrow> Inl e
                    | Inr endpoints \<Rightarrow>
                        (case rp_apiInfo page framework of
                           Throws m \<Rightarrow> Inl (DocsPageLoadError url m)
                         | Returns apiInfo \<Rightarrow>
                             Inr \<lparr> sr_url = url, sr_framework = framework, sr_apiInfo = apiInfo,
                                   sr_endpoints = endpoints, sr_extractedAt = now \<rparr>)))))"

section \<open>Example documents and worlds\<close>

text \<open>A small OpenAPI 3.0 document, and the same document without its paths.\<close>

definition petstore :: jsval where
  "petstore =
    JObj [(''openapi'', JStr ''3.0.0''),
          (''info'', JObj [(''title'', JStr ''Pets'')]),
          (''paths'', JObj [(''/pets'', JObj [(''get'', JObj [(''summary'', JStr ''List pets'')])])])]"

definition petstoreNoPaths :: jsval where
  "petstoreNoPaths =
    JObj [(''openapi'', JStr ''3.0.0''), (''info'', JObj [(''title'', JStr ''Pets'')])]"

text \<open>A fresh process with an empty cache directory in which every write succeeds.\<close>

definition emptyCache :: cache_state where
  "emptyCache =
    \<lparr> manifest_file = Missing, spec_files = (\<lambda>f. Missing), mkdir_ok = True,
      write_ok = (\<lambda>f. True), EMPTY_MANIFEST_entries = Map.empty \<rparr>"

text \<open>
  A cache whose manifest has one entry, for the given key, that names a file which is not
  in the directory.
\<close>

definition danglingCache :: "string \<Rightarrow> int option \<Rightarrow> cache_state" where
  "danglingCache key expiresAt =
    \<lparr> manifest_file =
        Stored (Map.empty(key \<mapsto>
          \<lparr> me_url = ''https://h.io/openapi.json'', me_filename = key @ ''.json'',
            me_cachedAt = 1000, me_expiresAt = expiresAt,
            me_specInfo = \<lparr> ms_title = JStr ''Pets'', ms_version = JStr ''unknown'',
                            ms_type = ''openapi'' \<rparr> \<rparr>)),
      spec_files = (\<lambda>f. Missing), mkdir_ok = True,
      write_ok = (\<lambda>f. True), EMPTY_MANIFEST_entries = Map.empty \<rparr>"

text \<open>The YAML text of the example document, line by line.\<close>

definition petstoreYaml :: string where
  "petstoreYaml =
    ''openapi: 3.0.0'' @ [CHR 0x0A] @
    ''info:'' @ [CHR 0x0A] @
    ''  title: Pets'' @ [CHR 0x0A] @
    ''paths:'' @ [CHR 0x0A] @
    ''  /pets:'' @ [CHR 0x0A] @
    ''    get:'' @ [CHR 0x0A] @
    ''      summary: List pets''"

text \<open>
  \<^verbatim>\<open>JSON.parse\<close> and \<^verbatim>\<open>yaml.load\<close> on the texts the example hosts serve with a success
  status: the YAML text of the example document, the JSON text of an object with the one
  property \<^verbatim>\<open>a\<close>, which is also YAML, and the word \<^verbatim>\<open>oops\<close>, which is no JSON
  and a YAML scalar.
\<close>

definition exampleJsonParse :: "string \<Rightarrow> jsval option" where
  "exampleJsonParse s = (if s = ''{\"a\":1}'' then Some (JObj [(''a'', JNum 1)]) else None)"

definition exampleYamlLoad :: "string \<Rightarrow> jsval option" where
  "exampleYamlLoad s =
    (if s = petstoreYaml then Some petstore
     else if s = ''{\"a\":1}'' then Some (JObj [(''a'', JNum 1)])
     else if s = ''oops'' then Some (JStr ''oops'')
     else None)"

text \<open>
  A host that serves a JSON document which is no specification at
  \<^verbatim>\<open>/v1/spec.json\<close>, text that is not JSON at \<^verbatim>\<open>/broken.json\<close>, the YAML text of the
  example document at \<^verbatim>\<open>/openapi.yaml\<close>, and 404 everywhere else.
\<close>

definition exampleHost :: web where
  "exampleHost =
    \<lparr> http_fetch = (\<lambda>u.
        if u = ''https://h.io/v1/spec.json'' then
          FetchResponse \<lparr> resp_ok = True, resp_contentType = Some ''application/json'',
                          resp_body = Some ''{\"a\":1}'' \<rparr>
        else if u = ''https://h.io/broken.json'' then
          FetchResponse \<lparr> resp_ok = True, resp_contentType = Some ''application/json'',
                          resp_body = Some ''oops'' \<rparr>
        else if u = ''https://h.io/openapi.yaml'' then
          FetchResponse \<lparr> resp_ok = True, resp_contentType = Some ''text/yaml'',
                          resp_body = Some petstoreYaml \<rparr>
        else FetchResponse \<lparr> resp_ok = False, resp_contentType = Some ''text/html'',
                             resp_body = Some ''<html>'' \<rparr>),
      JSON_parse = exampleJsonParse,
      yaml_load = exampleYamlLoad,
      url_origin = (\<lambda>u. if startsWith u ''https://h.io/'' then Some ''https://h.io'' else None) \<rparr>"

text \<open>
  A host that serves the same YAML text at \<^verbatim>\<open>/openapi.yaml\<close> with a success status
  under the content type \<^verbatim>\<open>text/html\<close>, and 404 everywhere else.
\<close>

definition mislabelledHost :: web where
  "mislabelledHost =
    \<lparr> http_fetch = (\<lambda>u.
        if u = ''https://m.io/openapi.yaml'' then
          FetchResponse \<lparr> resp_ok = True, resp_contentType = Some ''text/html; charset=utf-8'',
                          resp_body = Some petstoreYaml \<rparr>
        else FetchResponse \<lparr> resp_ok = False, resp_contentType = Some ''text/html'',
                             resp_body = Some ''<html>'' \<rparr>),
      JSON_parse = exampleJsonParse,
      yaml_load = exampleYamlLoad,
      url_origin = (\<lambda>u. if startsWith u ''https://m.io/'' then Some ''https://m.io'' else None) \<rparr>"

text \<open>What \<^verbatim>\<open>tryFetchSpec\<close> returns for the document at \<^verbatim>\<open>/openapi.yaml\<close> of that host.\<close>

definition petstoreFetched :: fetched_spec where
  "petstoreFetched =
    \<lparr> fs_spec = petstore, fs_format = ''yaml'',
      fs_specInfo = \<lparr> si_type = ''openapi'', si_version = ''3.0.0'', si_title = JStr ''Pets'',
                      si_apiVersion = JStr ''unknown'' \<rparr>,
      fs_url = ''https://h.io/openapi.yaml'' \<rparr>"







text \<open>
  A rendered documentation page with two operation blocks that show the same method and
  path with different descriptions. The blocks answer the selectors of the Swagger UI,
  Redoc and Scalar extractors alike; the page carries the Redoc marker; \<open>loginForm\<close>
  tells whether the page also shows a password field.
\<close>

definition leaf :: "string \<Rightarrow> dom_element" where
  "leaf t = Element t t [] (\<lambda>selector. [])"

definition operationBlock :: "string \<Rightarrow> string \<Rightarrow> string \<Rightarrow> dom_element" where
  "operationBlock m p d =
    Element (m @ '' '' @ p @ '' '' @ d) (m @ '' '' @ p @ '' '' @ d) []
      (\<lambda>selector.
         if selector \<in> set [''.opblock-summary-method'',
              ''.http-verb, [class*=\"http-verb\"], [class*=\"method\"]'',
              ''[class*=\"method\"], [class*=\"http-method\"], .badge, [class*=\"request-method\"], [class*=\"HttpMethod\"]'']
         then [leaf m]
         else if selector \<in> set [''.opblock-summary-path, .opblock-summary-path__deprecated'',
              ''.operation-path, [class*=\"path\"], code'',
              ''[class*=\"path\"], [class*=\"url\"], code, [class*=\"endpoint-path\"], [class*=\"OperationPath\"]'']
         then [leaf p]
         else if selector \<in> set [''.opblock-summary-description'',
              ''.operation-summary, [class*=\"summary\"], p'',
              ''[class*=\"description\"], [class*=\"summary\"], [class*=\"Description\"], p:not([class*=\"path\"])'']
         then [leaf d]
         else [])"

definition docsPage :: "bool \<Rightarrow> rendered_page" where
  "docsPage loginForm =
    \<lparr> rp_evaluate = Returns (),
      rp_queryAll = (\<lambda>selector.
        if selector = ''input[type=\"password\"]'' then (if loginForm then [leaf []] else [])
        else if selector = ''.redoc-wrap'' then [leaf []]
        else if selector \<in> set [''.opblock'',
               ''[data-section-id*=\"operation\"], .operation'',
               ''.scalar-card, [class*=\"operation\"], [class*=\"endpoint\"], .request-block, [class*=\"HttpOperation\"]'']
        then [operationBlock ''get'' ''/users'' ''First'', operationBlock ''GET'' '' /users '' ''Second'']
        else []),
      rp_title = ''Pets API'',
      rp_body = Some \<lparr> body_innerText = ''Pets API'', body_innerHTML = ''<h1>Pets API</h1>'' \<rparr>,
      rp_window = (\<lambda>name. JUndefined),
      rp_responses = [],
      rp_swaggerSpecJson = Throws ''window.ui is undefined'',
      rp_windowUISpec = JNull,
      rp_inlineScriptSpec = JNull,
      rp_redocScripts = None,
      rp_fetchJson = (\<lambda>u. Throws ''fetch failed''),
      rp_apiInfo = (\<lambda>framework.
        Returns \<lparr> ai_title = ''Pets API'', ai_version = None, ai_description = None \<rparr>) \<rparr>"

text \<open>A browser that loads the given page for every URL.\<close>

definition browserShowing :: "rendered_page \<Rightarrow> renderer" where
  "browserShowing page = \<lparr> rd_getPage = Returns (), rd_goto = (\<lambda>u. Inr page) \<rparr>"

section \<open>Properties of the strings\<close>

lemma lowerChar_idem: "lowerChar (lowerChar c) = lowerChar c"
  by (simp add: lowerChar_def upperLetters_def lowerLetters_def)

lemma isWhiteSpace_lowerChar: "isWhiteSpace (lowerChar c) = isWhiteSpace c"
  by (simp add: lowerChar_def upperLetters_def lowerLetters_def isWhiteSpace_def)

lemma toLowerCase_idem: "toLowerCase (toLowerCase s) = toLowerCase s"
  by (simp add: toLowerCase_def lowerChar_idem)

lemma dropWhile_ws_lower: "dropWhile isWhiteSpace (map lowerChar s) = map lowerChar (dropWhile isWhiteSpace s)"
  by (induction s) (auto simp: isWhiteSpace_lowerChar)

lemma trim_toLowerCase: "trim (toLowerCase s) = toLowerCase (trim s)"
  by (simp add: trim_def toLowerCase_def dropWhile_ws_lower rev_map)

lemma dropWhile_rev_keep: "xs \<noteq> [] \<Longrightarrow> \<not> P (last xs) \<Longrightarrow> dropWhile P (rev xs) = rev xs"
  by (cases xs rule: rev_cases) auto

lemma last_dropWhile: "dropWhile P xs \<noteq> [] \<Longrightarrow> last (dropWhile P xs) = last xs"
  by (induction xs) (auto split: if_splits)

lemma dropWhile_rev_dropWhile:
  "dropWhile P (rev (dropWhile P (rev (dropWhile P s)))) = rev (dropWhile P (rev (dropWhile P s)))"
proof (cases "dropWhile P (rev (dropWhile P s)) = []")
  case True
  show ?thesis unfolding True by simp
next
  case False
  define t where "t = dropWhile P s"
  from False have ne: "dropWhile P (rev t) \<noteq> []" by (simp add: t_def)
  then have "t \<noteq> []" by auto
  then have "\<not> P (hd t)" unfolding t_def by (metis hd_dropWhile)
  moreover have "last (dropWhile P (rev t)) = last (rev t)" using ne by (rule last_dropWhile)
  moreover have "last (rev t) = hd t" using \<open>t \<noteq> []\<close> by (simp add: last_rev)
  ultimately have "\<not> P (last (dropWhile P (rev t)))" by simp
  with ne have "dropWhile P (rev (dropWhile P (rev t))) = rev (dropWhile P (rev t))"
    by (rule dropWhile_rev_keep)
  then show ?thesis by (simp add: t_def)
qed

lemma trim_idem: "trim (trim s) = trim s"
  unfolding trim_def
  by (simp add: dropWhile_rev_dropWhile dropWhile_idem)


lemma normalise_idem: "toLowerCase (trim (toLowerCase (trim s))) = toLowerCase (trim s)"
  by (simp add: trim_toLowerCase toLowerCase_idem trim_idem)


lemmas string_simps = trim_def isWhiteSpace_def toLowerCase_def lowerChar_def upperLetters_def
  lowerLetters_def endsWith_def

section \<open>Properties of the specification cache\<close>

lemmas js_simps = truthy_def typeofObject_def typeofString_def getProp_def jsOr_def
  stringStartsWith_def stringOf_def

lemma jsonValue_petstore: "jsonValue petstore = petstore"
  by (simp add: petstore_def)

text \<open>What the JSON text keeps of a value: an example with \<^verbatim>\<open>undefined\<close> in it.\<close>

lemma jsonValue_drops_undefined:
  "jsonValue (JObj [(''a'', JUndefined), (''b'', JArr [JUndefined, JNum 1])]) =
     JObj [(''b'', JArr [JNull, JNum 1])]"
  by simp

lemma jsonValue_idem:
  "jsonValue (jsonValue v) = jsonValue v"
  "jsonItems (jsonItems xs) = jsonItems xs"
  "jsonProps (jsonProps kvs) = jsonProps kvs"
proof (induction v and xs and kvs rule: jsonValue_jsonItems_jsonProps.induct)
  case (9 x xs)
  then show ?case by (cases x) simp_all
next
  case (11 kv kvs)
  then show ?case by (cases "snd kv") simp_all
qed simp_all

lemma jsonEntry_fields:
  "me_url (jsonEntry e) = me_url e" "me_filename (jsonEntry e) = me_filename e"
  "me_cachedAt (jsonEntry e) = me_cachedAt e" "me_expiresAt (jsonEntry e) = me_expiresAt e"
  by (simp_all add: jsonEntry_def)

lemma isExpired_jsonEntry: "isExpired (jsonEntry e) now = isExpired e now"
  by (simp add: isExpired_def jsonEntry_fields)

lemma setCache_result:
  assumes "setCache sha jp url spec ttl fmt now st = (Inr entry, st')"
  shows "\<exists>v n ex entries.
           specObjOf jp spec = Inr v \<and> normalizeSpec v fmt = Inr n \<and> expiresAtOf ttl now = Inr ex
           \<and> me_expiresAt entry = ex \<and> me_filename entry = generateCacheKey sha url @ ''.json''
           \<and> manifest_file st' = Stored entries
           \<and> entries (generateCacheKey sha url) = Some (jsonEntry entry)
           \<and> spec_files st' (generateCacheKey sha url @ ''.json'') =
               Stored \<lparr> cd_metadata =
                          \<lparr> md_url = url, md_cachedAt = now, md_expiresAt = ex,
                            md_originalFormat = fmt, md_specType = ns_type n,
                            md_specVersion = ns_specVersion n \<rparr>,
                        cd_spec = jsonValue v \<rparr>"
  using assms
  by (auto simp: setCache_def Let_def writeManifest_def ensureCacheDirectory_def
           split: sum.splits if_splits prod.splits disk_file.splits)

text \<open>
  After \<^verbatim>\<open>setCache\<close> has returned, \<^verbatim>\<open>getCached\<close> for the same URL is decided by the
  expiry the entry was given: expired, or the document as the file holds it.
\<close>

lemma getCached_after_setCache:
  assumes "setCache sha jp url spec ttl fmt cachedAt st = (Inr entry, st')"
      and "specObjOf jp spec = Inr v"
      and "normalizeSpec v fmt = Inr n"
  shows "expiresAtOf ttl cachedAt = Inr (me_expiresAt entry)
       \<and> getCached sha url ignoreExpired t st' =
           (if \<not> ignoreExpired \<and> isExpired entry t
            then Inl (CacheExpiredError url (me_expiresAt entry))
            else Inr \<lparr> cd_metadata =
                        \<lparr> md_url = url, md_cachedAt = cachedAt, md_expiresAt = me_expiresAt entry,
                          md_originalFormat = fmt, md_specType = ns_type n,
                          md_specVersion = ns_specVersion n \<rparr>,
                      cd_spec = jsonValue v \<rparr>)"
proof -
  from setCache_result [OF assms(1)] assms(2,3)
  obtain entries where
    ex: "expiresAtOf ttl cachedAt = Inr (me_expiresAt entry)"
    and fn: "me_filename entry = generateCacheKey sha url @ ''.json''"
    and mf: "manifest_file st' = Stored entries"
            "entries (generateCacheKey sha url) = Some (jsonEntry entry)"
    and sf: "spec_files st' (generateCacheKey sha url @ ''.json'') =
               Stored \<lparr> cd_metadata =
                          \<lparr> md_url = url, md_cachedAt = cachedAt, md_expiresAt = me_expiresAt entry,
                            md_originalFormat = fmt, md_specType = ns_type n,
                            md_specVersion = ns_specVersion n \<rparr>,
                        cd_spec = jsonValue v \<rparr>"
    by auto
  show ?thesis
    using ex mf sf fn
    by (simp add: getCached_def readManifest_def jsonEntry_fields isExpired_jsonEntry)
qed

lemma getCached_stored:
  assumes "manifest_file st = Stored entries" "entries (generateCacheKey sha url) = Some entry"
      and "spec_files st (me_filename entry) = Stored d"
  shows "getCached sha url ignoreExpired now st =
           (if \<not> ignoreExpired \<and> isExpired entry now
            then Inl (CacheExpiredError url (me_expiresAt entry)) else Inr d)"
  using assms by (simp add: getCached_def readManifest_def)


lemma normalizeSpec_petstore:
  "normalizeSpec petstore ''json'' =
     Inr \<lparr> ns_title = JStr ''Pets'', ns_version = JStr ''unknown'', ns_type = ''openapi'',
           ns_specVersion = Some ''3.0.0'', ns_originalFormat = ''json'' \<rparr>"
  by (simp add: normalizeSpec_def petstore_def js_simps)

lemma specObjOf_petstore: "specObjOf json_parse petstore = Inr petstore"
  by (simp add: specObjOf_def petstore_def)

lemma setCache_petstore:
  "fst (setCache sha256hex json_parse ''https://h.io/openapi.json'' petstore ttl ''json'' 1000 emptyCache) =
     (case expiresAtOf ttl 1000 of
        Inl e \<Rightarrow> Inl e
      | Inr ex \<Rightarrow>
          Inr \<lparr> me_url = ''https://h.io/openapi.json'',
                me_filename = generateCacheKey sha256hex ''https://h.io/openapi.json'' @ ''.json'',
                me_cachedAt = 1000, me_expiresAt = ex,
                me_specInfo = \<lparr> ms_title = JStr ''Pets'', ms_version = JStr ''unknown'',
                                ms_type = ''openapi'' \<rparr> \<rparr>)"
  by (simp add: setCache_def specObjOf_petstore normalizeSpec_petstore ensureCacheDirectory_def
        emptyCache_def readManifest_def writeManifest_def Let_def split: sum.splits)


text \<open>
  Claim C7. The cache key is a function of the trimmed, lower-cased URL alone: the key of
  a string and the key of its trimmed lower-case form are the same, so \<^verbatim>\<open>getCached\<close>
  finds the same document under both, whatever the digest, the time and the state of
  the cache (of a failing lookup only the URL in the error differs). In particular
  \<^verbatim>\<open>" FOO "\<close> and \<^verbatim>\<open>"foo"\<close> have one key.
\<close>

theorem cache_key_normalization_invariant:
  "generateCacheKey sha256hex (toLowerCase (trim s)) = generateCacheKey sha256hex s
   \<and> case_sum (\<lambda>e. None) Some (getCached sha256hex (toLowerCase (trim s)) ignoreExpired now st)
     = case_sum (\<lambda>e. None) Some (getCached sha256hex s ignoreExpired now st)"
  by (auto simp: generateCacheKey_def normalise_idem getCached_def split: sum.splits option.splits disk_file.splits)


theorem cache_key_normalization_invariant_witness:
  "\<forall>sha256hex. generateCacheKey sha256hex '' FOO '' = generateCacheKey sha256hex ''foo''"
proof
  fix sha256hex :: "string \<Rightarrow> string"
  have "toLowerCase (trim '' FOO '') = ''foo''"
    by (simp add: toLowerCase_def trim_def isWhiteSpace_def lowerChar_def upperLetters_def lowerLetters_def)
  moreover have "toLowerCase (trim ''foo'') = ''foo''"
    by (simp add: toLowerCase_def trim_def isWhiteSpace_def lowerChar_def upperLetters_def lowerLetters_def)
  ultimately show "generateCacheKey sha256hex '' FOO '' = generateCacheKey sha256hex ''foo''"
    using cache_key_normalization_invariant [of sha256hex "'' FOO ''"]
          cache_key_normalization_invariant [of sha256hex "''foo''"]
    by simp
qed

text \<open>
  Where claim C2 holds. After \<^verbatim>\<open>setCache(url, spec, { ttl })\<close> has returned at the time
  \<open>cachedAt\<close> with a ttl other than 0, \<^verbatim>\<open>getCached(url)\<close> at a time up to
  \<open>cachedAt + ttl\<close> returns the stored document (as its JSON text holds it) with its
  metadata, and after \<open>cachedAt + ttl\<close> it fails with \<^verbatim>\<open>CacheExpiredError\<close>, which is not
  \<^verbatim>\<open>CacheNotFoundError\<close>.
\<close>

lemma cache_roundtrip_nonzero_ttl:
  assumes "setCache sha256hex json_parse url spec (Some d) originalFormat cachedAt st = (Inr entry, st')"
      and "specObjOf json_parse spec = Inr v"
      and "normalizeSpec v originalFormat = Inr n"
      and "d \<noteq> 0"
  shows "t \<le> cachedAt + d \<Longrightarrow>
            getCached sha256hex url False t st' =
              Inr \<lparr> cd_metadata =
                      \<lparr> md_url = url, md_cachedAt = cachedAt, md_expiresAt = Some (cachedAt + d),
                        md_originalFormat = originalFormat, md_specType = ns_type n,
                        md_specVersion = ns_specVersion n \<rparr>,
                    cd_spec = jsonValue v \<rparr>"
    and "cachedAt + d < t \<Longrightarrow>
            getCached sha256hex url False t st' = Inl (CacheExpiredError url (Some (cachedAt + d)))"
proof -
  have ex: "me_expiresAt entry = Some (cachedAt + d)"
    using getCached_after_setCache [OF assms(1-3), of False t] assms(4)
    by (auto simp: expiresAtOf_def split: if_splits)
  show "t \<le> cachedAt + d \<Longrightarrow>
            getCached sha256hex url False t st' =
              Inr \<lparr> cd_metadata =
                      \<lparr> md_url = url, md_cachedAt = cachedAt, md_expiresAt = Some (cachedAt + d),
                        md_originalFormat = originalFormat, md_specType = ns_type n,
                        md_specVersion = ns_specVersion n \<rparr>,
                    cd_spec = jsonValue v \<rparr>"
    using getCached_after_setCache [OF assms(1-3), of False t]
    by (simp add: ex isExpired_def)
  show "cachedAt + d < t \<Longrightarrow>
            getCached sha256hex url False t st' = Inl (CacheExpiredError url (Some (cachedAt + d)))"
    using getCached_after_setCache [OF assms(1-3), of False t]
    by (simp add: ex isExpired_def)
qed

lemma cache_roundtrip_nonzero_ttl_example:
  "getCached sha256hex ''https://h.io/openapi.json'' False 1400
       (snd (setCache sha256hex json_parse ''https://h.io/openapi.json'' petstore (Some 500) ''json'' 1000 emptyCache))
     = Inr \<lparr> cd_metadata =
               \<lparr> md_url = ''https://h.io/openapi.json'', md_cachedAt = 1000, md_expiresAt = Some 1500,
                 md_originalFormat = ''json'', md_specType = ''openapi'',
                 md_specVersion = Some ''3.0.0'' \<rparr>,
             cd_spec = petstore \<rparr>
   \<and> getCached sha256hex ''https://h.io/openapi.json'' False 1600
       (snd (setCache sha256hex json_parse ''https://h.io/openapi.json'' petstore (Some 500) ''json'' 1000 emptyCache))
     = Inl (CacheExpiredError ''https://h.io/openapi.json'' (Some 1500))"
proof -
  let ?r = "setCache sha256hex json_parse ''https://h.io/openapi.json'' petstore (Some 500) ''json'' 1000 emptyCache"
  have "fst ?r =
     Inr \<lparr> me_url = ''https://h.io/openapi.json'',
           me_filename = generateCacheKey sha256hex ''https://h.io/openapi.json'' @ ''.json'',
           me_cachedAt = 1000, me_expiresAt = Some 1500,
           me_specInfo = \<lparr> ms_title = JStr ''Pets'', ms_version = JStr ''unknown'',
                           ms_type = ''openapi'' \<rparr> \<rparr>"
    by (simp add: setCache_petstore expiresAtOf_def MAX_TIME_def)
  then have run: "?r =
     (Inr \<lparr> me_url = ''https://h.io/openapi.json'',
           me_filename = generateCacheKey sha256hex ''https://h.io/openapi.json'' @ ''.json'',
           me_cachedAt = 1000, me_expiresAt = Some 1500,
           me_specInfo = \<lparr> ms_title = JStr ''Pets'', ms_version = JStr ''unknown'',
                           ms_type = ''openapi'' \<rparr> \<rparr>, snd ?r)"
    by (simp add: prod_eq_iff)
  show ?thesis
    using cache_roundtrip_nonzero_ttl [OF run specObjOf_petstore normalizeSpec_petstore, of 1400]
          cache_roundtrip_nonzero_ttl [OF run specObjOf_petstore normalizeSpec_petstore, of 1600]
    by (simp add: jsonValue_petstore)
qed

text \<open>
  Claim C2 fails on the code for the finite ttl 0, where the documentation of \<^verbatim>\<open>setCache\<close>
  (``TTL in milliseconds (null = no expiration)'') agrees with the claim:
  \<^verbatim>\<open>ttl ? ... : null\<close> takes the ttl 0 for no ttl. After
  \<^verbatim>\<open>setCache(url, spec, { ttl: 0 })\<close> has returned at the time \<open>cachedAt\<close>, the entry has no
  expiry, and \<^verbatim>\<open>getCached(url)\<close> returns the stored document at every time \<open>t\<close>, also
  after \<open>cachedAt + 0\<close>, where the claim has it fail with \<^verbatim>\<open>CacheExpiredError\<close>.
\<close>

theorem zero_ttl_never_expires:
  assumes "setCache sha256hex json_parse url spec (Some 0) originalFormat cachedAt st = (Inr entry, st')"
      and "specObjOf json_parse spec = Inr v"
      and "normalizeSpec v originalFormat = Inr n"
  shows "me_expiresAt entry = None
       \<and> getCached sha256hex url False t st' =
              Inr \<lparr> cd_metadata =
                      \<lparr> md_url = url, md_cachedAt = cachedAt, md_expiresAt = None,
                        md_originalFormat = originalFormat, md_specType = ns_type n,
                        md_specVersion = ns_specVersion n \<rparr>,
                    cd_spec = jsonValue v \<rparr>
       \<and> getCached sha256hex url False t st' \<noteq> Inl (CacheExpiredError url (Some (cachedAt + 0)))"
proof -
  have ex: "me_expiresAt entry = None"
    using getCached_after_setCache [OF assms(1-3), of False t]
    by (simp add: expiresAtOf_def)
  show ?thesis
    using getCached_after_setCache [OF assms(1-3), of False t]
    by (simp add: ex isExpired_def)
qed

theorem zero_ttl_never_expires_witness:
  "\<forall>sha256hex json_parse.
     fst (setCache sha256hex json_parse ''https://h.io/openapi.json'' petstore (Some 0) ''json'' 1000 emptyCache)
     = Inr \<lparr> me_url = ''https://h.io/openapi.json'',
             me_filename = generateCacheKey sha256hex ''https://h.io/openapi.json'' @ ''.json'',
             me_cachedAt = 1000, me_expiresAt = None,
             me_specInfo = \<lparr> ms_title = JStr ''Pets'', ms_version = JStr ''unknown'',
                             ms_type = ''openapi'' \<rparr> \<rparr>
     \<and> (1000 + 0 < (2000 :: int))
     \<and> getCached sha256hex ''https://h.io/openapi.json'' False 2000
       (snd (setCache sha256hex json_parse ''https://h.io/openapi.json'' petstore (Some 0) ''json'' 1000 emptyCache))
     = Inr \<lparr> cd_metadata =
               \<lparr> md_url = ''https://h.io/openapi.json'', md_cachedAt = 1000, md_expiresAt = None,
                 md_originalFormat = ''json'', md_specType = ''openapi'',
                 md_specVersion = Some ''3.0.0'' \<rparr>,
             cd_spec = petstore \<rparr>"
proof (intro allI)
  fix sha256hex :: "string \<Rightarrow> string" and json_parse :: "string \<Rightarrow> jsval option"
  let ?r = "setCache sha256hex json_parse ''https://h.io/openapi.json'' petstore (Some 0) ''json'' 1000 emptyCache"
  have f: "fst ?r =
     Inr \<lparr> me_url = ''https://h.io/openapi.json'',
           me_filename = generateCacheKey sha256hex ''https://h.io/openapi.json'' @ ''.json'',
           me_cachedAt = 1000, me_expiresAt = None,
           me_specInfo = \<lparr> ms_title = JStr ''Pets'', ms_version = JStr ''unknown'',
                           ms_type = ''openapi'' \<rparr> \<rparr>"
    by (simp add: setCache_petstore expiresAtOf_def)
  then have run: "?r =
     (Inr \<lparr> me_url = ''https://h.io/openapi.json'',
           me_filename = generateCacheKey sha256hex ''https://h.io/openapi.json'' @ ''.json'',
           me_cachedAt = 1000, me_expiresAt = None,
           me_specInfo = \<lparr> ms_title = JStr ''Pets'', ms_version = JStr ''unknown'',
                           ms_type = ''openapi'' \<rparr> \<rparr>, snd ?r)"
    by (simp add: prod_eq_iff)
  show "fst ?r
     = Inr \<lparr> me_url = ''https://h.io/openapi.json'',
             me_filename = generateCacheKey sha256hex ''https://h.io/openapi.json'' @ ''.json'',
             me_cachedAt = 1000, me_expiresAt = None,
             me_specInfo = \<lparr> ms_title = JStr ''Pets'', ms_version = JStr ''unknown'',
                             ms_type = ''openapi'' \<rparr> \<rparr>
     \<and> (1000 + 0 < (2000 :: int))
     \<and> getCached sha256hex ''https://h.io/openapi.json'' False 2000 (snd ?r)
     = Inr \<lparr> cd_metadata =
               \<lparr> md_url = ''https://h.io/openapi.json'', md_cachedAt = 1000, md_expiresAt = None,
                 md_originalFormat = ''json'', md_specType = ''openapi'',
                 md_specVersion = Some ''3.0.0'' \<rparr>,
             cd_spec = petstore \<rparr>"
    using zero_ttl_never_expires [OF run specObjOf_petstore normalizeSpec_petstore, of 2000] f
    by (simp add: jsonValue_petstore)
qed


text \<open>
  Claim C8, as the code has it. When the manifest has an entry for the key of a URL and
  the file the entry names is not in the cache directory, \<^verbatim>\<open>getCached\<close> fails with
  \<^verbatim>\<open>CacheNotFoundError\<close>, unless the entry has expired and \<^verbatim>\<open>ignoreExpired\<close> is not set:
  the expiry check comes first and fails with \<^verbatim>\<open>CacheExpiredError\<close>. In neither case is
  the failure a \<^verbatim>\<open>CacheIOError\<close> or an internal error.
\<close>

theorem missing_blob_not_found_unless_expired:
  assumes "readManifest st = Inr entries"
      and "entries (generateCacheKey sha256hex url) = Some entry"
      and "spec_files st (me_filename entry) = Missing"
  shows "getCached sha256hex url ignoreExpired now st =
           (if \<not> ignoreExpired \<and> isExpired entry now
            then Inl (CacheExpiredError url (me_expiresAt entry))
            else Inl (CacheNotFoundError url))
         \<and> (\<forall>operation path. getCached sha256hex url ignoreExpired now st \<noteq> Inl (CacheIOError operation path))
         \<and> getCached sha256hex url ignoreExpired now st
             \<notin> {Inl SyntaxError, Inl TypeError, Inl RangeError}"
  using assms by (simp add: getCached_def)


theorem missing_blob_not_found_unless_expired_witness:
  "\<forall>sha256hex.
     getCached sha256hex ''https://h.io/openapi.json'' False 2000
       (danglingCache (generateCacheKey sha256hex ''https://h.io/openapi.json'') None)
     = Inl (CacheNotFoundError ''https://h.io/openapi.json'')
   \<and> getCached sha256hex ''https://h.io/openapi.json'' True 2000
       (danglingCache (generateCacheKey sha256hex ''https://h.io/openapi.json'') (Some 1500))
     = Inl (CacheNotFoundError ''https://h.io/openapi.json'')"
proof (intro allI)
  fix sha256hex :: "string \<Rightarrow> string"
  let ?k = "generateCacheKey sha256hex ''https://h.io/openapi.json''"
  let ?e = "\<lambda>ex. \<lparr> me_url = ''https://h.io/openapi.json'', me_filename = ?k @ ''.json'',
            me_cachedAt = 1000, me_expiresAt = ex,
            me_specInfo = \<lparr> ms_title = JStr ''Pets'', ms_version = JStr ''unknown'',
                            ms_type = ''openapi'' \<rparr> \<rparr>"
  have m: "readManifest (danglingCache ?k ex) = Inr (Map.empty(?k \<mapsto> ?e ex))" for ex
    by (simp add: readManifest_def danglingCache_def)
  have e: "(Map.empty(?k \<mapsto> ?e ex)) ?k = Some (?e ex)" for ex
    by simp
  have f: "spec_files (danglingCache ?k ex) (me_filename (?e ex)) = Missing" for ex
    by (simp add: danglingCache_def)
  show "getCached sha256hex ''https://h.io/openapi.json'' False 2000 (danglingCache ?k None)
     = Inl (CacheNotFoundError ''https://h.io/openapi.json'')
   \<and> getCached sha256hex ''https://h.io/openapi.json'' True 2000 (danglingCache ?k (Some 1500))
     = Inl (CacheNotFoundError ''https://h.io/openapi.json'')"
    using missing_blob_not_found_unless_expired [OF m [of None] e [of None] f [of None], where ignoreExpired = False and now = 2000]
          missing_blob_not_found_unless_expired [OF m [of "Some 1500"] e [of "Some 1500"] f [of "Some 1500"], where ignoreExpired = True and now = 2000]
    by (simp add: isExpired_def)
qed


text \<open>
  The claim C8 as it is stated fails for an entry that has expired: the manifest has the
  entry, its file is missing, and the read fails with \<^verbatim>\<open>CacheExpiredError\<close>, not
  with \<^verbatim>\<open>CacheNotFoundError\<close>.
\<close>

theorem expired_entry_with_missing_blob:
  "\<forall>sha256hex.
     readManifest (danglingCache (generateCacheKey sha256hex ''https://h.io/openapi.json'') (Some 1500))
       = Inr (Map.empty(generateCacheKey sha256hex ''https://h.io/openapi.json'' \<mapsto>
          \<lparr> me_url = ''https://h.io/openapi.json'',
            me_filename = generateCacheKey sha256hex ''https://h.io/openapi.json'' @ ''.json'',
            me_cachedAt = 1000, me_expiresAt = Some 1500,
            me_specInfo = \<lparr> ms_title = JStr ''Pets'', ms_version = JStr ''unknown'',
                            ms_type = ''openapi'' \<rparr> \<rparr>))
   \<and> spec_files (danglingCache (generateCacheKey sha256hex ''https://h.io/openapi.json'') (Some 1500))
        (generateCacheKey sha256hex ''https://h.io/openapi.json'' @ ''.json'') = Missing
   \<and> getCached sha256hex ''https://h.io/openapi.json'' False 2000
       (danglingCache (generateCacheKey sha256hex ''https://h.io/openapi.json'') (Some 1500))
     = Inl (CacheExpiredError ''https://h.io/openapi.json'' (Some 1500))
   \<and> getCached sha256hex ''https://h.io/openapi.json'' False 2000
       (danglingCache (generateCacheKey sha256hex ''https://h.io/openapi.json'') (Some 1500))
     \<noteq> Inl (CacheNotFoundError ''https://h.io/openapi.json'')"
  by (simp add: getCached_def readManifest_def danglingCache_def isExpired_def)

section \<open>Properties of the validators\<close>

text \<open>
  What each validator requires of a document it accepts. The validator of the direct
  fetch asks for paths, webhooks or components under OpenAPI 3.x; the two validators of
  the rendering extractors do not.
\<close>

lemma validateSpec_accepts:
  assumes "validateSpec spec url = Inr info"
  shows "(si_type info = ''openapi'' \<and> stringStartsWith (getProp spec ''openapi'') ''3.''
            \<and> truthy (getProp spec ''info'')
            \<and> (truthy (getProp spec ''paths'') \<or> truthy (getProp spec ''webhooks'')
                \<or> truthy (getProp spec ''components'')))
       \<or> (si_type info = ''swagger'' \<and> getProp spec ''swagger'' = JStr ''2.0''
            \<and> truthy (getProp spec ''info'') \<and> truthy (getProp spec ''paths''))"
  using assms by (auto simp: validateSpec_def split: if_splits)

lemma rendered_validateSpec_accepts:
  assumes "rendered_validateSpec spec = Some info"
  shows "(si_type info = ''openapi'' \<and> stringStartsWith (getProp spec ''openapi'') ''3.''
            \<and> truthy (getProp spec ''info''))
       \<or> (si_type info = ''swagger'' \<and> getProp spec ''swagger'' = JStr ''2.0''
            \<and> truthy (getProp spec ''info'') \<and> truthy (getProp spec ''paths''))"
  using assms by (auto simp: rendered_validateSpec_def split: if_splits)

lemma openapi_2_0_rejected:
  assumes "getProp spec ''openapi'' = JStr ''2.0''" and "getProp spec ''swagger'' = JUndefined"
  shows "validateSpec spec url = Inl (InvalidSpecError url ''Not a valid OpenAPI 3.x or Swagger 2.0 specification'')
         \<or> validateSpec spec url = Inl (InvalidSpecError url ''Spec must be an object'')"
    and "swaggerui_validateSpec spec = None" and "redoc_validateSpec spec = None"
  using assms
  by (auto simp: validateSpec_def rendered_validateSpec_def swaggerui_validateSpec_def
        redoc_validateSpec_def stringStartsWith_def)

text \<open>
  Claim C3 fails on the two validators of the rendering extractors, where the validator
  of the direct fetch does what the claim says: a document that declares OpenAPI 3.0.0
  and an \<^verbatim>\<open>info\<close> object, with no \<^verbatim>\<open>paths\<close>, no \<^verbatim>\<open>webhooks\<close> and no \<^verbatim>\<open>components\<close>, is
  accepted as OpenAPI by \<^verbatim>\<open>validateSpec\<close> of swagger-ui.js and of redoc.js, and rejected
  by \<^verbatim>\<open>validateSpec\<close> of openapi.js.
\<close>

theorem rendered_validators_accept_without_paths:
  "swaggerui_validateSpec petstoreNoPaths =
     Some \<lparr> si_type = ''openapi'', si_version = ''3.0.0'', si_title = JStr ''Pets'',
            si_apiVersion = JStr ''unknown'' \<rparr>
   \<and> redoc_validateSpec petstoreNoPaths =
     Some \<lparr> si_type = ''openapi'', si_version = ''3.0.0'', si_title = JStr ''Pets'',
            si_apiVersion = JStr ''unknown'' \<rparr>
   \<and> validateSpec petstoreNoPaths url =
     Inl (InvalidSpecError url ''Missing paths, webhooks, or components'')
   \<and> getProp petstoreNoPaths ''paths'' = JUndefined
   \<and> getProp petstoreNoPaths ''webhooks'' = JUndefined
   \<and> getProp petstoreNoPaths ''components'' = JUndefined"
  by (simp add: swaggerui_validateSpec_def redoc_validateSpec_def rendered_validateSpec_def
        validateSpec_def petstoreNoPaths_def truthy_def typeofObject_def getProp_def jsOr_def
        stringStartsWith_def stringOf_def)

theorem rendered_validators_accept_without_paths_witness:
  "swaggerui_validateSpec petstoreNoPaths \<noteq> None \<and> redoc_validateSpec petstoreNoPaths \<noteq> None
   \<and> validateSpec petstoreNoPaths ''https://h.io/openapi.json'' =
     Inl (InvalidSpecError ''https://h.io/openapi.json'' ''Missing paths, webhooks, or components'')"
  using rendered_validators_accept_without_paths [of "''https://h.io/openapi.json''"]
  by simp

section \<open>Properties of the direct fetch and of path probing\<close>

text \<open>
  When a single request of \<^verbatim>\<open>tryFetchSpec\<close> gives null, and when it gives a document:
  the timeout, a network failure, a status that is not 2xx, a body that cannot be read,
  an HTML body under a success status, a body that does not parse, and a document that
  fails validation all give null.
\<close>

lemma tryFetchSpec_None_iff:
  "tryFetchSpec w url = None \<longleftrightarrow>
     http_fetch w url = FetchAborted
   \<or> http_fetch w url = FetchNetworkError
   \<or> (\<exists>r. http_fetch w url = FetchResponse r
         \<and> (\<not> resp_ok r
            \<or> resp_body r = None
            \<or> (\<exists>content. resp_body r = Some content
                 \<and> (includes_str (case resp_contentType r of Some c \<Rightarrow> c | None \<Rightarrow> []) ''text/html''
                      \<and> \<not> startsWith (trim content) ''{''
                    \<or> (\<exists>e. parseSpecContent w content url = Inl e)
                    \<or> (\<exists>spec format e. parseSpecContent w content url = Inr (spec, format)
                          \<and> validateSpec spec url = Inl e)))))"
  by (auto simp: tryFetchSpec_def split: fetch_outcome.splits option.splits sum.splits prod.splits)

lemma tryFetchSpec_Some_iff:
  "tryFetchSpec w url = Some res \<longleftrightarrow>
     (\<exists>r content spec format info.
        http_fetch w url = FetchResponse r \<and> resp_ok r \<and> resp_body r = Some content
        \<and> \<not> (includes_str (case resp_contentType r of Some c \<Rightarrow> c | None \<Rightarrow> []) ''text/html''
              \<and> \<not> startsWith (trim content) ''{'')
        \<and> parseSpecContent w content url = Inr (spec, format)
        \<and> validateSpec spec url = Inr info
        \<and> res = \<lparr> fs_spec = spec, fs_format = format, fs_specInfo = info, fs_url = url \<rparr>)"
  by (auto simp: tryFetchSpec_def split: fetch_outcome.splits option.splits sum.splits prod.splits)

lemma probePaths_first_success:
  assumes "N < length paths"
      and "\<forall>i<N. tryFetchSpec w (baseUrl @ paths ! i) = None"
      and "tryFetchSpec w (baseUrl @ paths ! N) = Some r"
  shows "probePaths w baseUrl paths = (Some r, map ((@) baseUrl) (take (Suc N) paths))"
  using assms
proof (induction paths arbitrary: N)
  case Nil
  then show ?case by simp
next
  case (Cons p ps)
  show ?case
  proof (cases N)
    case 0
    with Cons.prems show ?thesis by simp
  next
    case (Suc M)
    from Cons.prems(2) Suc have first: "tryFetchSpec w (baseUrl @ p) = None"
      by (metis nth_Cons_0 zero_less_Suc)
    have "M < length ps" using Cons.prems(1) Suc by simp
    moreover have "\<forall>i<M. tryFetchSpec w (baseUrl @ ps ! i) = None"
      using Cons.prems(2) Suc by (metis Suc_less_eq nth_Cons_Suc)
    moreover have "tryFetchSpec w (baseUrl @ ps ! M) = Some r" using Cons.prems(3) Suc by simp
    ultimately have "probePaths w baseUrl ps = (Some r, map ((@) baseUrl) (take (Suc M) ps))"
      by (rule Cons.IH)
    with first Suc show ?thesis by simp
  qed
qed

lemma fetchOpenAPISpec_never_throws_extractor_error:
  "fst (fetchOpenAPISpec w url probeCommonPaths) \<noteq> Inl (ThrownOpenAPI e)"
  by (auto simp: fetchOpenAPISpec_def Let_def split: option.splits prod.splits if_splits)

text \<open>The texts and the requests of the example hosts.\<close>

lemma petstoreYaml_text:
  "trim petstoreYaml = petstoreYaml"
  "\<not> startsWith petstoreYaml ''{''"
  "exampleYamlLoad petstoreYaml = Some petstore"
  by (simp_all add: petstoreYaml_def exampleYamlLoad_def string_simps)

lemma petstore_valid:
  "validateSpec petstore url =
     Inr \<lparr> si_type = ''openapi'', si_version = ''3.0.0'', si_title = JStr ''Pets'',
           si_apiVersion = JStr ''unknown'' \<rparr>"
  by (simp add: validateSpec_def petstore_def js_simps)

lemma petstore_object: "typeofObject petstore \<and> petstore \<noteq> JNull"
  by (simp add: petstore_def typeofObject_def)

lemma exampleHost_parsers:
  "JSON_parse exampleHost = exampleJsonParse" "yaml_load exampleHost = exampleYamlLoad"
  "JSON_parse mislabelledHost = exampleJsonParse" "yaml_load mislabelledHost = exampleYamlLoad"
  by (simp_all add: exampleHost_def mislabelledHost_def)

lemma parse_petstoreYaml:
  "parseSpecContent exampleHost petstoreYaml ''https://h.io/openapi.yaml'' = Inr (petstore, ''yaml'')"
  "parseSpecContent mislabelledHost petstoreYaml ''https://m.io/openapi.yaml'' = Inr (petstore, ''yaml'')"
  by (simp_all add: parseSpecContent_def parseYaml_def exampleHost_parsers exampleYamlLoad_def
        petstoreYaml_def petstore_object string_simps Let_def)

lemma exampleHost_openapi_json: "tryFetchSpec exampleHost ''https://h.io/openapi.json'' = None"
  by (simp add: tryFetchSpec_def exampleHost_def)

lemma exampleHost_openapi_yaml: "tryFetchSpec exampleHost ''https://h.io/openapi.yaml'' = Some petstoreFetched"
proof -
  have "http_fetch exampleHost ''https://h.io/openapi.yaml'' =
          FetchResponse \<lparr> resp_ok = True, resp_contentType = Some ''text/yaml'',
                          resp_body = Some petstoreYaml \<rparr>"
    by (simp add: exampleHost_def)
  then show ?thesis
    by (simp add: tryFetchSpec_def parse_petstoreYaml petstore_valid petstoreFetched_def)
qed

lemma exampleHost_spec_json: "tryFetchSpec exampleHost ''https://h.io/v1/spec.json'' = None"
  by (simp add: tryFetchSpec_def exampleHost_def parseSpecContent_def parseYaml_def validateSpec_def
        exampleJsonParse_def string_simps js_simps Let_def)

lemma exampleHost_broken_json: "tryFetchSpec exampleHost ''https://h.io/broken.json'' = None"
  by (simp add: tryFetchSpec_def exampleHost_def parseSpecContent_def parseYaml_def validateSpec_def
        exampleJsonParse_def string_simps js_simps Let_def)

lemma normalizeUrl_examples:
  "normalizeUrl ''h.io/'' = ''https://h.io''"
  "normalizeUrl ''https://h.io/v1/spec.json'' = ''https://h.io/v1/spec.json''"
  "normalizeUrl ''https://h.io/broken.json'' = ''https://h.io/broken.json''"
  by (simp_all add: normalizeUrl_def string_simps Let_def)

lemma isDirectSpecUrl_examples:
  "\<not> isDirectSpecUrl ''https://h.io''"
  "isDirectSpecUrl ''https://h.io/v1/spec.json''"
  "isDirectSpecUrl ''https://h.io/broken.json''"
  by (simp_all add: isDirectSpecUrl_def string_simps Let_def)

text \<open>
  Claim C4, as the code has it. Probing requests the conventional paths in their fixed
  order. When the first \<open>N\<close> probes fail (\<^verbatim>\<open>tryFetchSpec\<close> gives null: by
  \<open>tryFetchSpec_None_iff\<close> on a timeout, a network failure, a status that is not 2xx, an
  unreadable body, an HTML body under a success status, a parse failure or a validation
  failure) and probe \<open>N + 1\<close> is answered with a success status and a body that parses
  and passes validation, and that is not skipped as HTML (the content type contains
  \<^verbatim>\<open>text/html\<close> and the trimmed body does not begin with a brace), the probing loop makes
  exactly the \<open>N + 1\<close> requests for the first \<open>N + 1\<close> paths and returns that document,
  and so does \<^verbatim>\<open>fetchOpenAPISpec\<close>, without an error: for a base URL these are all its
  requests, for a direct reference whose own fetch failed they follow that one request.
\<close>

theorem probing_stops_at_first_valid_document:
  assumes "N < length COMMON_SPEC_PATHS"
      and "\<forall>i<N. tryFetchSpec w (baseUrl @ COMMON_SPEC_PATHS ! i) = None"
      and "http_fetch w (baseUrl @ COMMON_SPEC_PATHS ! N) = FetchResponse response"
      and "resp_ok response"
      and "resp_body response = Some content"
      and "\<not> (includes_str (case resp_contentType response of Some c \<Rightarrow> c | None \<Rightarrow> []) ''text/html''
              \<and> \<not> startsWith (trim content) ''{'')"
      and "parseSpecContent w content (baseUrl @ COMMON_SPEC_PATHS ! N) = Inr (spec, format)"
      and "validateSpec spec (baseUrl @ COMMON_SPEC_PATHS ! N) = Inr info"
      and "document = \<lparr> fs_spec = spec, fs_format = format, fs_specInfo = info,
                        fs_url = baseUrl @ COMMON_SPEC_PATHS ! N \<rparr>"
      and "(\<not> isDirectSpecUrl (normalizeUrl url) \<and> baseUrl = normalizeUrl url \<and> before = [])
         \<or> (isDirectSpecUrl (normalizeUrl url) \<and> tryFetchSpec w (normalizeUrl url) = None
              \<and> url_origin w (normalizeUrl url) = Some baseUrl \<and> before = [normalizeUrl url])"
  shows "probePaths w baseUrl COMMON_SPEC_PATHS =
           (Some document, map ((@) baseUrl) (take (Suc N) COMMON_SPEC_PATHS))
       \<and> length (map ((@) baseUrl) (take (Suc N) COMMON_SPEC_PATHS)) = N + 1
       \<and> fetchOpenAPISpec w url True =
           (Inr (Some document), before @ map ((@) baseUrl) (take (Suc N) COMMON_SPEC_PATHS))"
proof -
  have ok: "tryFetchSpec w (baseUrl @ COMMON_SPEC_PATHS ! N) = Some document"
    using assms(3-9) by (simp add: tryFetchSpec_def)
  have p: "probePaths w baseUrl COMMON_SPEC_PATHS =
             (Some document, map ((@) baseUrl) (take (Suc N) COMMON_SPEC_PATHS))"
    using assms(1,2) ok by (rule probePaths_first_success)
  have l: "length (map ((@) baseUrl) (take (Suc N) COMMON_SPEC_PATHS)) = N + 1"
    using assms(1) by simp
  have f: "fetchOpenAPISpec w url True =
           (Inr (Some document), before @ map ((@) baseUrl) (take (Suc N) COMMON_SPEC_PATHS))"
    using assms(10) p by (auto simp: fetchOpenAPISpec_def Let_def)
  from p l f show ?thesis by simp
qed

theorem probing_stops_at_first_valid_document_witness:
  "fetchOpenAPISpec exampleHost ''h.io/'' True =
     (Inr (Some petstoreFetched), [''https://h.io/openapi.json'', ''https://h.io/openapi.yaml''])
   \<and> fetchOpenAPISpec exampleHost ''https://h.io/v1/spec.json'' True =
     (Inr (Some petstoreFetched),
      [''https://h.io/v1/spec.json'', ''https://h.io/openapi.json'', ''https://h.io/openapi.yaml''])"
proof -
  have n: "(1::nat) < length COMMON_SPEC_PATHS" by (simp add: COMMON_SPEC_PATHS_def)
  have u: "COMMON_SPEC_PATHS ! 1 = ''/openapi.yaml''" "COMMON_SPEC_PATHS ! Suc 0 = ''/openapi.yaml''"
    by (simp_all add: COMMON_SPEC_PATHS_def)
  have fails: "\<forall>i<1. tryFetchSpec exampleHost (''https://h.io'' @ COMMON_SPEC_PATHS ! i) = None"
    by (simp add: COMMON_SPEC_PATHS_def exampleHost_openapi_json)
  have resp: "http_fetch exampleHost (''https://h.io'' @ COMMON_SPEC_PATHS ! 1) =
                FetchResponse \<lparr> resp_ok = True, resp_contentType = Some ''text/yaml'',
                                resp_body = Some petstoreYaml \<rparr>"
    by (simp add: u exampleHost_def)
  have ok: "resp_ok \<lparr> resp_ok = True, resp_contentType = Some ''text/yaml'',
                      resp_body = Some petstoreYaml \<rparr>"
    by simp
  have body: "resp_body \<lparr> resp_ok = True, resp_contentType = Some ''text/yaml'',
                          resp_body = Some petstoreYaml \<rparr> = Some petstoreYaml"
    by simp
  have html: "\<not> (includes_str (case resp_contentType \<lparr> resp_ok = True, resp_contentType = Some ''text/yaml'',
                          resp_body = Some petstoreYaml \<rparr> of Some c \<Rightarrow> c | None \<Rightarrow> []) ''text/html''
              \<and> \<not> startsWith (trim petstoreYaml) ''{'')"
    by simp
  have parse: "parseSpecContent exampleHost petstoreYaml (''https://h.io'' @ COMMON_SPEC_PATHS ! 1) =
                 Inr (petstore, ''yaml'')"
    by (simp add: u parse_petstoreYaml)
  have valid: "validateSpec petstore (''https://h.io'' @ COMMON_SPEC_PATHS ! 1) =
                 Inr \<lparr> si_type = ''openapi'', si_version = ''3.0.0'', si_title = JStr ''Pets'',
                       si_apiVersion = JStr ''unknown'' \<rparr>"
    by (rule petstore_valid)
  have doc: "petstoreFetched =
      \<lparr> fs_spec = petstore, fs_format = ''yaml'',
        fs_specInfo = \<lparr> si_type = ''openapi'', si_version = ''3.0.0'', si_title = JStr ''Pets'',
                        si_apiVersion = JStr ''unknown'' \<rparr>,
        fs_url = ''https://h.io'' @ COMMON_SPEC_PATHS ! 1 \<rparr>"
    by (simp add: u petstoreFetched_def)
  have base: "(\<not> isDirectSpecUrl (normalizeUrl ''h.io/'') \<and> ''https://h.io'' = normalizeUrl ''h.io/'' \<and> [] = ([] :: string list))
         \<or> (isDirectSpecUrl (normalizeUrl ''h.io/'') \<and> tryFetchSpec exampleHost (normalizeUrl ''h.io/'') = None
              \<and> url_origin exampleHost (normalizeUrl ''h.io/'') = Some ''https://h.io'' \<and> [] = [normalizeUrl ''h.io/''])"
    by (simp add: normalizeUrl_examples isDirectSpecUrl_examples)
  have direct: "(\<not> isDirectSpecUrl (normalizeUrl ''https://h.io/v1/spec.json'')
              \<and> ''https://h.io'' = normalizeUrl ''https://h.io/v1/spec.json'' \<and> [''https://h.io/v1/spec.json''] = [])
         \<or> (isDirectSpecUrl (normalizeUrl ''https://h.io/v1/spec.json'')
              \<and> tryFetchSpec exampleHost (normalizeUrl ''https://h.io/v1/spec.json'') = None
              \<and> url_origin exampleHost (normalizeUrl ''https://h.io/v1/spec.json'') = Some ''https://h.io''
              \<and> [''https://h.io/v1/spec.json''] = [normalizeUrl ''https://h.io/v1/spec.json''])"
    by (simp add: normalizeUrl_examples isDirectSpecUrl_examples exampleHost_spec_json)
       (simp add: exampleHost_def)
  show ?thesis
    using probing_stops_at_first_valid_document [OF n fails resp ok body html parse valid doc base]
          probing_stops_at_first_valid_document [OF n fails resp ok body html parse valid doc direct]
    by (simp add: COMMON_SPEC_PATHS_def)
qed

text \<open>
  The claim C4 as it is stated fails for a document that is served under the content
  type \<^verbatim>\<open>text/html\<close>: the first probe of the host fails with a 404, the second is
  answered with a success status and the YAML text of a document that parses and passes
  validation, and \<^verbatim>\<open>tryFetchSpec\<close> skips it as HTML. Probing goes on through all
  twenty-one paths and the acquisition returns null.
\<close>

theorem mislabelled_document_is_skipped:
  "http_fetch mislabelledHost (''https://m.io'' @ COMMON_SPEC_PATHS ! 0) =
     FetchResponse \<lparr> resp_ok = False, resp_contentType = Some ''text/html'',
                     resp_body = Some ''<html>'' \<rparr>
   \<and> tryFetchSpec mislabelledHost (''https://m.io'' @ COMMON_SPEC_PATHS ! 0) = None
   \<and> http_fetch mislabelledHost (''https://m.io'' @ COMMON_SPEC_PATHS ! 1) =
       FetchResponse \<lparr> resp_ok = True, resp_contentType = Some ''text/html; charset=utf-8'',
                       resp_body = Some petstoreYaml \<rparr>
   \<and> parseSpecContent mislabelledHost petstoreYaml (''https://m.io'' @ COMMON_SPEC_PATHS ! 1) =
       Inr (petstore, ''yaml'')
   \<and> validateSpec petstore (''https://m.io'' @ COMMON_SPEC_PATHS ! 1) =
       Inr \<lparr> si_type = ''openapi'', si_version = ''3.0.0'', si_title = JStr ''Pets'',
             si_apiVersion = JStr ''unknown'' \<rparr>
   \<and> tryFetchSpec mislabelledHost (''https://m.io'' @ COMMON_SPEC_PATHS ! 1) = None
   \<and> fetchOpenAPISpec mislabelledHost ''https://m.io'' True =
       (Inr None, map ((@) ''https://m.io'') COMMON_SPEC_PATHS)
   \<and> length (map ((@) ''https://m.io'') COMMON_SPEC_PATHS) = 21"
proof -
  have u: "''https://m.io'' @ COMMON_SPEC_PATHS ! 0 = ''https://m.io/openapi.json''"
          "''https://m.io'' @ COMMON_SPEC_PATHS ! 1 = ''https://m.io/openapi.yaml''"
    by (simp_all add: COMMON_SPEC_PATHS_def)
  have f0: "http_fetch mislabelledHost ''https://m.io/openapi.json'' =
     FetchResponse \<lparr> resp_ok = False, resp_contentType = Some ''text/html'',
                     resp_body = Some ''<html>'' \<rparr>"
    by (simp add: mislabelledHost_def)
  have f1: "http_fetch mislabelledHost ''https://m.io/openapi.yaml'' =
       FetchResponse \<lparr> resp_ok = True, resp_contentType = Some ''text/html; charset=utf-8'',
                       resp_body = Some petstoreYaml \<rparr>"
    by (simp add: mislabelledHost_def)
  have other: "p \<noteq> ''/openapi.yaml'' \<Longrightarrow> tryFetchSpec mislabelledHost (''https://m.io'' @ p) = None" for p
    by (simp add: tryFetchSpec_def mislabelledHost_def)
  have t0: "tryFetchSpec mislabelledHost ''https://m.io/openapi.json'' = None"
    using other [of "''/openapi.json''"] by simp
  have t1: "tryFetchSpec mislabelledHost ''https://m.io/openapi.yaml'' = None"
    by (simp add: tryFetchSpec_def f1 petstoreYaml_def string_simps)
  have t1': "tryFetchSpec mislabelledHost (''https://m.io'' @ ''/openapi.yaml'') = None"
    using t1 by simp
  have all: "tryFetchSpec mislabelledHost (''https://m.io'' @ p) = None" for p
    using other [of p] t1' by (cases "p = ''/openapi.yaml''") simp_all
  have probe: "probePaths mislabelledHost ''https://m.io'' ps = (None, map ((@) ''https://m.io'') ps)" for ps
    by (induction ps) (simp_all add: all [simplified])
  have n: "normalizeUrl ''https://m.io'' = ''https://m.io''"
    by (simp add: normalizeUrl_def string_simps Let_def)
  have d: "\<not> isDirectSpecUrl ''https://m.io''"
    by (simp add: isDirectSpecUrl_def string_simps Let_def)
  have r: "fetchOpenAPISpec mislabelledHost ''https://m.io'' True =
       (Inr None, map ((@) ''https://m.io'') COMMON_SPEC_PATHS)"
    by (simp add: fetchOpenAPISpec_def n d probe)
  have l: "length (map ((@) ''https://m.io'') COMMON_SPEC_PATHS) = 21"
    by (simp add: COMMON_SPEC_PATHS_def)
  show ?thesis
    unfolding u
    by (simp only: f0 f1 t0 t1 r l parse_petstoreYaml petstore_valid simp_thms)
qed

text \<open>
  Claim C1, as the code has it. For a target that is an explicit direct reference, a
  fetched body that does not parse (also under a \<^verbatim>\<open>.json\<close> extension) or that parses
  and fails validation is absorbed: \<^verbatim>\<open>tryFetchSpec\<close> gives null, and
  \<^verbatim>\<open>fetchOpenAPISpec\<close> goes on to probe the conventional paths from the origin of the
  target and returns what probing gives, or returns null when probing is switched off.
  No parse or validation error ever leaves \<^verbatim>\<open>fetchOpenAPISpec\<close>.
\<close>

theorem direct_target_failure_is_absorbed:
  assumes "isDirectSpecUrl (normalizeUrl url)"
      and "http_fetch w (normalizeUrl url) = FetchResponse r"
      and "resp_ok r"
      and "resp_body r = Some content"
      and "(\<exists>e. parseSpecContent w content (normalizeUrl url) = Inl e)
         \<or> (\<exists>spec format e. parseSpecContent w content (normalizeUrl url) = Inr (spec, format)
               \<and> validateSpec spec (normalizeUrl url) = Inl e)"
  shows "tryFetchSpec w (normalizeUrl url) = None
       \<and> fetchOpenAPISpec w url False = (Inr None, [normalizeUrl url])
       \<and> fetchOpenAPISpec w url True =
           (case url_origin w (normalizeUrl url) of
              None \<Rightarrow> (Inl ThrownTypeError, [normalizeUrl url])
            | Some baseUrl \<Rightarrow>
                (Inr (fst (probePaths w baseUrl COMMON_SPEC_PATHS)),
                 normalizeUrl url # snd (probePaths w baseUrl COMMON_SPEC_PATHS)))
       \<and> (\<forall>probeCommonPaths e.
             fst (fetchOpenAPISpec w url probeCommonPaths) \<noteq> Inl (ThrownOpenAPI e))"
proof -
  have none: "tryFetchSpec w (normalizeUrl url) = None"
    using assms(2-5) by (auto simp: tryFetchSpec_def)
  then show ?thesis
    using assms(1)
    by (auto simp: fetchOpenAPISpec_def Let_def split: option.splits prod.splits)
qed

theorem direct_target_failure_is_absorbed_witness:
  "tryFetchSpec exampleHost ''https://h.io/broken.json'' = None
   \<and> fetchOpenAPISpec exampleHost ''https://h.io/broken.json'' False = (Inr None, [''https://h.io/broken.json''])
   \<and> (\<forall>probeCommonPaths e.
         fst (fetchOpenAPISpec exampleHost ''https://h.io/broken.json'' probeCommonPaths) \<noteq> Inl (ThrownOpenAPI e))"
proof -
  have n: "normalizeUrl ''https://h.io/broken.json'' = ''https://h.io/broken.json''"
    by (simp add: normalizeUrl_def string_simps Let_def)
  have d: "isDirectSpecUrl (normalizeUrl ''https://h.io/broken.json'')"
    by (simp add: n) (simp add: isDirectSpecUrl_def string_simps Let_def)
  have f: "http_fetch exampleHost (normalizeUrl ''https://h.io/broken.json'') =
             FetchResponse \<lparr> resp_ok = True, resp_contentType = Some ''application/json'',
                             resp_body = Some ''oops'' \<rparr>"
    by (simp add: n) (simp add: exampleHost_def)
  have p: "(\<exists>e. parseSpecContent exampleHost ''oops'' (normalizeUrl ''https://h.io/broken.json'') = Inl e)
         \<or> (\<exists>spec format e. parseSpecContent exampleHost ''oops'' (normalizeUrl ''https://h.io/broken.json'') = Inr (spec, format)
               \<and> validateSpec spec (normalizeUrl ''https://h.io/broken.json'') = Inl e)"
    by (simp add: n) (simp add: parseSpecContent_def exampleHost_def exampleJsonParse_def string_simps Let_def)
  show ?thesis
    using direct_target_failure_is_absorbed [OF d f _ _ p]
    by (simp add: n)
qed

text \<open>
  The claim C1 as it is stated fails: the direct reference \<^verbatim>\<open>/v1/spec.json\<close> of the
  example host parses and fails validation, and the acquisition returns the document
  probing finds at \<^verbatim>\<open>/openapi.yaml\<close>; the direct reference \<^verbatim>\<open>/broken.json\<close> does not
  parse as JSON, and the acquisition returns null. Neither surfaces an error.
\<close>

theorem direct_target_failure_not_surfaced:
  "isDirectSpecUrl (normalizeUrl ''https://h.io/v1/spec.json'')
   \<and> http_fetch exampleHost (normalizeUrl ''https://h.io/v1/spec.json'') =
       FetchResponse \<lparr> resp_ok = True, resp_contentType = Some ''application/json'',
                       resp_body = Some ''{\"a\":1}'' \<rparr>
   \<and> parseSpecContent exampleHost ''{\"a\":1}'' ''https://h.io/v1/spec.json'' =
       Inr (JObj [(''a'', JNum 1)], ''json'')
   \<and> validateSpec (JObj [(''a'', JNum 1)]) ''https://h.io/v1/spec.json'' =
       Inl (InvalidSpecError ''https://h.io/v1/spec.json''
              ''Not a valid OpenAPI 3.x or Swagger 2.0 specification'')
   \<and> fetchOpenAPISpec exampleHost ''https://h.io/v1/spec.json'' True =
       (Inr (Some petstoreFetched),
        [''https://h.io/v1/spec.json'', ''https://h.io/openapi.json'', ''https://h.io/openapi.yaml''])
   \<and> isDirectSpecUrl (normalizeUrl ''https://h.io/broken.json'')
   \<and> http_fetch exampleHost (normalizeUrl ''https://h.io/broken.json'') =
       FetchResponse \<lparr> resp_ok = True, resp_contentType = Some ''application/json'',
                       resp_body = Some ''oops'' \<rparr>
   \<and> parseSpecContent exampleHost ''oops'' ''https://h.io/broken.json'' =
       Inl (ParseError ''https://h.io/broken.json'' ''json'')
   \<and> fetchOpenAPISpec exampleHost ''https://h.io/broken.json'' False =
       (Inr None, [''https://h.io/broken.json''])"
proof -
  have n1: "normalizeUrl ''https://h.io/v1/spec.json'' = ''https://h.io/v1/spec.json''"
    by (simp add: normalizeUrl_def string_simps Let_def)
  have n2: "normalizeUrl ''https://h.io/broken.json'' = ''https://h.io/broken.json''"
    by (simp add: normalizeUrl_def string_simps Let_def)
  have d1: "isDirectSpecUrl ''https://h.io/v1/spec.json''"
    by (simp add: isDirectSpecUrl_def string_simps Let_def)
  have d2: "isDirectSpecUrl ''https://h.io/broken.json''"
    by (simp add: isDirectSpecUrl_def string_simps Let_def)
  have f1: "http_fetch exampleHost ''https://h.io/v1/spec.json'' =
       FetchResponse \<lparr> resp_ok = True, resp_contentType = Some ''application/json'',
                       resp_body = Some ''{\"a\":1}'' \<rparr>"
    by (simp add: exampleHost_def)
  have f2: "http_fetch exampleHost ''https://h.io/broken.json'' =
       FetchResponse \<lparr> resp_ok = True, resp_contentType = Some ''application/json'',
                       resp_body = Some ''oops'' \<rparr>"
    by (simp add: exampleHost_def)
  have p1: "parseSpecContent exampleHost ''{\"a\":1}'' ''https://h.io/v1/spec.json'' =
       Inr (JObj [(''a'', JNum 1)], ''json'')"
    by (simp add: parseSpecContent_def exampleHost_def exampleJsonParse_def string_simps Let_def)
  have p2: "parseSpecContent exampleHost ''oops'' ''https://h.io/broken.json'' =
       Inl (ParseError ''https://h.io/broken.json'' ''json'')"
    by (simp add: parseSpecContent_def exampleHost_def exampleJsonParse_def string_simps Let_def)
  have v1: "validateSpec (JObj [(''a'', JNum 1)]) ''https://h.io/v1/spec.json'' =
       Inl (InvalidSpecError ''https://h.io/v1/spec.json''
              ''Not a valid OpenAPI 3.x or Swagger 2.0 specification'')"
    by (simp add: validateSpec_def js_simps)
  have t1: "tryFetchSpec exampleHost ''https://h.io/v1/spec.json'' = None"
    by (simp add: tryFetchSpec_def f1 p1 v1)
  have t2: "tryFetchSpec exampleHost ''https://h.io/broken.json'' = None"
    by (simp add: tryFetchSpec_def f2 p2)
  have t3: "tryFetchSpec exampleHost ''https://h.io/openapi.json'' = None"
    by (simp add: tryFetchSpec_def exampleHost_def)
  have t4: "tryFetchSpec exampleHost ''https://h.io/openapi.yaml'' = Some petstoreFetched"
    by (rule exampleHost_openapi_yaml)
  have o: "url_origin exampleHost ''https://h.io/v1/spec.json'' = Some ''https://h.io''"
    by (simp add: exampleHost_def)
  have r1: "fetchOpenAPISpec exampleHost ''https://h.io/v1/spec.json'' True =
       (Inr (Some petstoreFetched),
        [''https://h.io/v1/spec.json'', ''https://h.io/openapi.json'', ''https://h.io/openapi.yaml''])"
    by (simp add: fetchOpenAPISpec_def n1 d1 t1 o COMMON_SPEC_PATHS_def t3 t4)
  have r2: "fetchOpenAPISpec exampleHost ''https://h.io/broken.json'' False =
       (Inr None, [''https://h.io/broken.json''])"
    by (simp add: fetchOpenAPISpec_def n2 d2 t2)
  show ?thesis
    by (simp only: n1 n2 d1 d2 f1 f2 p1 p2 v1 r1 r2 simp_thms)
qed

section \<open>Properties of the discovery\<close>


text \<open>
  The sort is the stable sort by falling score: the result has the hits of the input, in
  falling order of score, and the hits of any one score in the order of the input. So
  the best result is the first hit of the page among those with the highest score.
\<close>

lemma set_insertByScore: "set (insertByScore h xs) = insert h (set xs)"
  by (induction xs) auto

lemma set_sortByScore: "set (sortByScore hs) = set hs"
  by (induction hs) (simp_all add: sortByScore_def set_insertByScore)

lemma length_insertByScore: "length (insertByScore h xs) = Suc (length xs)"
  by (induction xs) auto

lemma length_sortByScore: "length (sortByScore hs) = length hs"
  by (induction hs) (simp_all add: sortByScore_def length_insertByScore)

lemma sorted_insertByScore:
  "sorted_wrt (\<lambda>a b. sh_score b \<le> sh_score a) xs \<Longrightarrow>
   sorted_wrt (\<lambda>a b. sh_score b \<le> sh_score a) (insertByScore h xs)"
  by (induction xs) (auto simp: set_insertByScore)

lemma sorted_sortByScore: "sorted_wrt (\<lambda>a b. sh_score b \<le> sh_score a) (sortByScore hs)"
  by (induction hs) (simp_all add: sortByScore_def sorted_insertByScore)

lemma filter_insertByScore:
  "filter (\<lambda>x. sh_score x = k) (insertByScore h xs) =
     (if sh_score h = k then h # filter (\<lambda>x. sh_score x = k) xs
      else filter (\<lambda>x. sh_score x = k) xs)"
  by (induction xs) auto

lemma sortByScore_stable:
  "filter (\<lambda>x. sh_score x = k) (sortByScore hs) = filter (\<lambda>x. sh_score x = k) hs"
  by (induction hs) (simp_all add: sortByScore_def filter_insertByScore)

lemma sortByScore_tie:
  "sh_score a = sh_score b \<Longrightarrow> sortByScore [a, b] = [a, b]"
  by (simp add: sortByScore_def)

lemma find_filter_hd: "find P xs = (case filter P xs of [] \<Rightarrow> None | x # ys \<Rightarrow> Some x)"
  by (induction xs) auto

lemma sortByScore_head:
  assumes "sortByScore hs = h # rest"
  shows "find (\<lambda>x. \<forall>y\<in>set hs. sh_score y \<le> sh_score x) hs = Some h"
proof -
  have s: "sorted_wrt (\<lambda>a b. sh_score b \<le> sh_score a) (h # rest)"
    using sorted_sortByScore [of hs] assms by simp
  have st: "set hs = insert h (set rest)"
    using set_sortByScore [of hs] assms by simp
  have mx: "\<forall>y\<in>set hs. sh_score y \<le> sh_score h"
    using s st by auto
  have eq: "(\<forall>y\<in>set hs. sh_score y \<le> sh_score x) \<longleftrightarrow> sh_score x = sh_score h"
    if "x \<in> set hs" for x
    using mx that st by (metis insertI1 le_antisym)
  have "filter (\<lambda>x. \<forall>y\<in>set hs. sh_score y \<le> sh_score x) hs =
          filter (\<lambda>x. sh_score x = sh_score h) hs"
    by (rule filter_cong) (simp_all add: eq)
  also have "\<dots> = filter (\<lambda>x. sh_score x = sh_score h) (sortByScore hs)"
    by (simp add: sortByScore_stable)
  also have "\<dots> = h # filter (\<lambda>x. sh_score x = sh_score h) rest"
    by (simp add: assms)
  finally show ?thesis by (simp add: find_filter_hd)
qed

text \<open>Two links that score the same: the best result is the first of the page.\<close>

lemma findBestSearchResult_tie_keeps_first:
  "findBestSearchResult
     \<lparr> pg_url = ''https://apitracker.io/search?q=pay'', pg_hasBody = True,
       pg_anchors = Some [\<lparr> a_href = ''/a/paypal'', a_textContent = ''PayPal'', a_closestText = None \<rparr>,
                          \<lparr> a_href = ''/a/payoneer'', a_textContent = ''Payoneer'', a_closestText = None \<rparr>] \<rparr>
     ''pay'' =
   Inr (Some \<lparr> sh_url = ''https://apitracker.io/a/paypal'', sh_slug = ''paypal'', sh_text = ''paypal'',
               sh_score = 80 \<rparr>)"
  by (simp add: findBestSearchResult_def hitOf_def scoreOf_def slugChar_def sortByScore_def
        List.map_filter_simps string_simps Let_def)














section \<open>Properties of the rendering extractors\<close>

text \<open>
  The two rendering extractors check for an authentication wall right after the page
  has loaded, before any of their strategies: a page that shows the signals makes them
  throw \<^verbatim>\<open>AuthenticationRequiredError\<close>.
\<close>

lemma extractFromSwaggerUI_auth_wall:
  assumes "rd_getPage rd = Returns ()"
      and "rd_goto rd (normalizePageUrl url) = Inr page"
      and "swaggerui_detectAuthRequired page"
  shows "extractFromSwaggerUI rd json_parse url timeout =
           Inl (AuthenticationRequiredError (normalizePageUrl url))"
  using assms by (simp add: extractFromSwaggerUI_def Let_def)

lemma extractFromRedoc_auth_wall:
  assumes "rd_getPage rd = Returns ()"
      and "rd_goto rd (normalizePageUrl url) = Inr page"
      and "redoc_detectAuthRequired page"
  shows "extractFromRedoc rd w resolve url timeout =
           Inl (AuthenticationRequiredError (normalizePageUrl url))"
  using assms by (simp add: extractFromRedoc_def Let_def)

text \<open>The example page, as the extractors read it.\<close>

lemma docsPage_fields:
  "rp_evaluate (docsPage loginForm) = Returns ()"
  "rp_window (docsPage loginForm) name = JUndefined"
  "rp_apiInfo (docsPage loginForm) framework =
     Returns \<lparr> ai_title = ''Pets API'', ai_version = None, ai_description = None \<rparr>"
  "rp_swaggerSpecJson (docsPage loginForm) = Throws ''window.ui is undefined''"
  by (simp_all add: docsPage_def)

lemma docsPage_operations:
  "rp_queryAll (docsPage loginForm) ''.opblock'' =
     [operationBlock ''get'' ''/users'' ''First'', operationBlock ''GET'' '' /users '' ''Second'']"
  "rp_queryAll (docsPage loginForm) ''[data-section-id*=\"operation\"], .operation'' =
     [operationBlock ''get'' ''/users'' ''First'', operationBlock ''GET'' '' /users '' ''Second'']"
  "rp_queryAll (docsPage loginForm)
     ''.scalar-card, [class*=\"operation\"], [class*=\"endpoint\"], .request-block, [class*=\"HttpOperation\"]'' =
     [operationBlock ''get'' ''/users'' ''First'', operationBlock ''GET'' '' /users '' ''Second'']"
  "rp_queryAll (docsPage loginForm) ''script'' = []"
  "rp_queryAll (docsPage loginForm) ''[data-spec-url], [data-configuration], .scalar-api-reference'' = []"
  "rp_queryAll (docsPage loginForm) ''script[data-spec]'' = []"
  "rp_queryAll (docsPage loginForm) ''.swagger-ui'' = []"
  "rp_queryAll (docsPage loginForm) ''#swagger-ui'' = []"
  "rp_queryAll (docsPage loginForm) ''.redoc-wrap'' = [leaf []]"
  "rp_queryAll (docsPage True) ''input[type=\"password\"]'' = [leaf []]"
  by (simp_all add: docsPage_def)

lemma operationBlock_parts:
  "el_queryAll (operationBlock m p d) ''.opblock-summary-method'' = [leaf m]"
  "el_queryAll (operationBlock m p d) ''.opblock-summary-path, .opblock-summary-path__deprecated'' = [leaf p]"
  "el_queryAll (operationBlock m p d) ''.opblock-summary-description'' = [leaf d]"
  "el_queryAll (operationBlock m p d) ''.http-verb, [class*=\"http-verb\"], [class*=\"method\"]'' = [leaf m]"
  "el_queryAll (operationBlock m p d) ''.operation-path, [class*=\"path\"], code'' = [leaf p]"
  "el_queryAll (operationBlock m p d) ''.operation-summary, [class*=\"summary\"], p'' = [leaf d]"
  "el_queryAll (operationBlock m p d)
     ''[class*=\"method\"], [class*=\"http-method\"], .badge, [class*=\"request-method\"], [class*=\"HttpMethod\"]'' = [leaf m]"
  "el_queryAll (operationBlock m p d)
     ''[class*=\"path\"], [class*=\"url\"], code, [class*=\"endpoint-path\"], [class*=\"OperationPath\"]'' = [leaf p]"
  "el_queryAll (operationBlock m p d)
     ''[class*=\"description\"], [class*=\"summary\"], [class*=\"Description\"], p:not([class*=\"path\"])'' = [leaf d]"
  by (simp_all add: operationBlock_def)

lemma trimmedText_leaf: "trimmedText (Some (leaf t)) = trim t"
  by (simp add: trimmedText_def leaf_def)

lemma upper_get: "toUpperCase ''get'' = ''GET''" "toUpperCase ''GET'' = ''GET''"
  by (simp_all add: toUpperCase_def upperChar_def upperLetters_def lowerLetters_def)

lemma trim_examples:
  "trim ''get'' = ''get''" "trim ''GET'' = ''GET''" "trim ''/users'' = ''/users''"
  "trim '' /users '' = ''/users''" "trim ''First'' = ''First''" "trim ''Second'' = ''Second''"
  by (simp_all add: trim_def isWhiteSpace_def)

lemmas page_simps = docsPage_fields docsPage_operations operationBlock_parts trimmedText_leaf
  upper_get trim_examples el_query_def rp_query_def

lemma redocDom_docsPage:
  "redocDomEndpoints (docsPage loginForm) =
     [domEndpoint ''GET'' ''/users'' ''First'', domEndpoint ''GET'' ''/users'' ''Second'']"
  by (simp add: redocDomEndpoints_def redocOperation_def page_simps Let_def)

lemma extractRedoc_docsPage:
  "extractRedocEndpoints (docsPage loginForm) =
     Returns [domEndpoint ''GET'' ''/users'' ''First'', domEndpoint ''GET'' ''/users'' ''Second'']"
  by (simp add: extractRedocEndpoints_def redocDom_docsPage docsPage_fields jsOr_def truthy_def Let_def)

lemma extractSwagger_docsPage:
  "extractSwaggerUiEndpoints (docsPage loginForm) =
     Returns [domEndpoint ''GET'' ''/users'' ''First'', domEndpoint ''GET'' ''/users'' ''Second'']"
  by (simp add: extractSwaggerUiEndpoints_def swaggerOperation_def page_simps truthy_def Let_def)

lemma scalarDom_docsPage:
  "scalarDomEndpoints (docsPage loginForm) = Returns [domEndpoint ''GET'' ''/users'' ''First'']"
  by (simp add: scalarDomEndpoints_def scalarOperation_def pushUnseen_def METHODS7_def page_simps Let_def)

lemma extractScalar_docsPage:
  "extractScalarEndpoints json_parse (docsPage loginForm) = Returns [domEndpoint ''GET'' ''/users'' ''First'']"
  by (simp add: extractScalarEndpoints_def scalarDom_docsPage scalarSpecUrl_def attrOf_def page_simps Let_def)

lemma detectFramework_docsPage: "detectFramework (docsPage loginForm) = Returns (Some ''redoc'')"
  by (simp add: detectFramework_def page_simps truthy_def)

lemma auth_docsPage:
  "swaggerui_detectAuthRequired (docsPage True)" "redoc_detectAuthRequired (docsPage True)"
  by (simp_all add: swaggerui_detectAuthRequired_def redoc_detectAuthRequired_def page_simps Let_def)

text \<open>
  Claim C5 fails on \<^verbatim>\<open>scrapeEndpoints\<close>, where the two rendering extractors do what the
  claim says: the example page shows a password field, \<^verbatim>\<open>detectAuthRequired\<close> of both
  extractors finds it, and \<^verbatim>\<open>extractFromSwaggerUI\<close> and \<^verbatim>\<open>extractFromRedoc\<close> throw
  \<^verbatim>\<open>AuthenticationRequiredError\<close>; \<^verbatim>\<open>scrapeEndpoints\<close> makes no such check and returns
  the endpoints it scrapes from the page.
\<close>

theorem scrapeEndpoints_has_no_auth_check:
  "swaggerui_detectAuthRequired (docsPage True)
   \<and> redoc_detectAuthRequired (docsPage True)
   \<and> extractFromSwaggerUI (browserShowing (docsPage True)) json_parse ''https://docs.h.io/api'' timeout =
       Inl (AuthenticationRequiredError ''https://docs.h.io/api'')
   \<and> extractFromRedoc (browserShowing (docsPage True)) w resolve ''https://docs.h.io/api'' timeout =
       Inl (AuthenticationRequiredError ''https://docs.h.io/api'')
   \<and> scrapeEndpoints (browserShowing (docsPage True)) json_parse ''https://docs.h.io/api'' [] now =
       Inr \<lparr> sr_url = ''https://docs.h.io/api'', sr_framework = ''redoc'',
             sr_apiInfo = \<lparr> ai_title = ''Pets API'', ai_version = None, ai_description = None \<rparr>,
             sr_endpoints =
               [\<lparr> ep_method = ''GET'', ep_path = ''/users'', ep_description = JStr ''First'',
                  ep_tags = JArr [], ep_operationId = JNull \<rparr>,
                \<lparr> ep_method = ''GET'', ep_path = ''/users'', ep_description = JStr ''Second'',
                  ep_tags = JArr [], ep_operationId = JNull \<rparr>],
             sr_extractedAt = now \<rparr>"
proof -
  have n: "normalizePageUrl ''https://docs.h.io/api'' = ''https://docs.h.io/api''"
    by (simp add: normalizePageUrl_def trim_def isWhiteSpace_def Let_def)
  have g: "rd_getPage (browserShowing (docsPage True)) = Returns ()"
    by (simp add: browserShowing_def)
  have l: "rd_goto (browserShowing (docsPage True)) u = Inr (docsPage True)" for u
    by (simp add: browserShowing_def)
  note a = docsPage_fields(3)
  have s: "extractFromSwaggerUI (browserShowing (docsPage True)) json_parse ''https://docs.h.io/api'' timeout =
       Inl (AuthenticationRequiredError ''https://docs.h.io/api'')"
    using extractFromSwaggerUI_auth_wall [OF g l auth_docsPage(1), where url = "''https://docs.h.io/api''"]
    by (simp add: n)
  have r: "extractFromRedoc (browserShowing (docsPage True)) w resolve ''https://docs.h.io/api'' timeout =
       Inl (AuthenticationRequiredError ''https://docs.h.io/api'')"
    using extractFromRedoc_auth_wall [OF g l auth_docsPage(2), where url = "''https://docs.h.io/api''"]
    by (simp add: n)
  have d: "scrapeEndpoints (browserShowing (docsPage True)) json_parse ''https://docs.h.io/api'' [] now =
       Inr \<lparr> sr_url = ''https://docs.h.io/api'', sr_framework = ''redoc'',
             sr_apiInfo = \<lparr> ai_title = ''Pets API'', ai_version = None, ai_description = None \<rparr>,
             sr_endpoints =
               [domEndpoint ''GET'' ''/users'' ''First'', domEndpoint ''GET'' ''/users'' ''Second''],
             sr_extractedAt = now \<rparr>"
    by (simp add: scrapeEndpoints_def g l detectFramework_docsPage extractEndpoints_def
          extractRedoc_docsPage a)
  show ?thesis
    using auth_docsPage s r d by (simp add: domEndpoint_def)
qed

theorem scrapeEndpoints_has_no_auth_check_witness:
  "\<forall>json_parse now.
     (case scrapeEndpoints (browserShowing (docsPage True)) json_parse ''https://docs.h.io/api'' [] now of
        Inl e \<Rightarrow> 0 | Inr res \<Rightarrow> length (sr_endpoints res)) = (2 :: nat)"
proof (intro allI)
  fix json_parse :: "string \<Rightarrow> jsval option" and now :: int
  show "(case scrapeEndpoints (browserShowing (docsPage True)) json_parse ''https://docs.h.io/api'' [] now of
        Inl e \<Rightarrow> 0 | Inr res \<Rightarrow> length (sr_endpoints res)) = (2 :: nat)"
    using scrapeEndpoints_has_no_auth_check [where json_parse = json_parse and now = now]
    by simp
qed

text \<open>
  Claim C6 fails on the DOM extraction of the Redoc and of the Swagger UI extractor,
  where the Scalar extractor does what the claim says: of two operation blocks with the
  same method and path, Redoc and Swagger UI return both, Scalar returns the first.
\<close>

theorem redoc_and_swagger_dom_keep_duplicates:
  "extractRedocEndpoints (docsPage False) =
     Returns [\<lparr> ep_method = ''GET'', ep_path = ''/users'', ep_description = JStr ''First'',
                ep_tags = JArr [], ep_operationId = JNull \<rparr>,
              \<lparr> ep_method = ''GET'', ep_path = ''/users'', ep_description = JStr ''Second'',
                ep_tags = JArr [], ep_operationId = JNull \<rparr>]
   \<and> extractSwaggerUiEndpoints (docsPage False) =
     Returns [\<lparr> ep_method = ''GET'', ep_path = ''/users'', ep_description = JStr ''First'',
                ep_tags = JArr [], ep_operationId = JNull \<rparr>,
              \<lparr> ep_method = ''GET'', ep_path = ''/users'', ep_description = JStr ''Second'',
                ep_tags = JArr [], ep_operationId = JNull \<rparr>]
   \<and> extractScalarEndpoints json_parse (docsPage False) =
     Returns [\<lparr> ep_method = ''GET'', ep_path = ''/users'', ep_description = JStr ''First'',
                ep_tags = JArr [], ep_operationId = JNull \<rparr>]"
  by (simp add: extractRedoc_docsPage extractSwagger_docsPage extractScalar_docsPage domEndpoint_def)

theorem redoc_and_swagger_dom_keep_duplicates_witness:
  "extractRedocEndpoints (docsPage False) \<noteq> extractScalarEndpoints (\<lambda>s. None) (docsPage False)
   \<and> extractSwaggerUiEndpoints (docsPage False) \<noteq> extractScalarEndpoints (\<lambda>s. None) (docsPage False)"
  using redoc_and_swagger_dom_keep_duplicates [of "\<lambda>s. None"]
  by simp

end
